theory Spec2Isabelle
  imports Complex_Main "HOL-Library.Sublist" "HOL-Library.Word"
begin

section \<open>JavaScript values, strings and errors\<close>

text \<open>
  The service layer (\<^verbatim>\<open>services/gemini.ts\<close>) and the ebook component
  (\<^verbatim>\<open>components/EbookCreator.tsx\<close>) are TypeScript. Values that come out of
  \<^verbatim>\<open>JSON.parse\<close> are typed \<^verbatim>\<open>any\<close> and flow unchecked into the records the
  code returns, so those fields are modelled as JavaScript values. The numbers that the
  code makes itself (indices, identifiers, retry counts, millisecond counts) are integers
  and are modelled as \<open>int\<close>.
\<close>

text \<open>
  A number inside a parsed value: a finite double, which is a rational, or an infinity
  (\<^verbatim>\<open>JSON.parse\<close> gives one for a literal too large for a double). The code does no
  arithmetic on such numbers, so \<^verbatim>\<open>NaN\<close> does not arise; it tests them for truth,
  compares them with \<^verbatim>\<open>===\<close> and prints them, and none of the three tells
  \<^verbatim>\<open>-0\<close> from \<^verbatim>\<open>0\<close>, which are both \<open>Finite 0\<close>.
\<close>

datatype number = Finite rat | PosInfinity | NegInfinity

text \<open>
  The text of a number (\<^verbatim>\<open>Number::toString\<close>: shortest digits that give the double
  back, exponent form from \<^verbatim>\<open>1e21\<close>) is the host's; where the code prints a parsed
  number it is the parameter \<open>numberText\<close>.
\<close>

type_synonym printer = "number \<Rightarrow> string"

datatype jsval =
    Undefined
  | Null
  | Bool bool
  | Num number
  | Str string
  | Arr "jsval list"
  | Obj "(string \<times> jsval) list"

text \<open>A thrown value: the fields \<^verbatim>\<open>retryOperation\<close> inspects, and the error's name.\<close>

record js_error =
  err_name :: string
  err_status :: "string option"
  err_code :: "int option"
  err_message :: "string option"

definition Error :: "string \<Rightarrow> js_error" where
  "Error m = \<lparr>err_name = ''Error'', err_status = None, err_code = None, err_message = Some m\<rparr>"

definition TypeError :: "string \<Rightarrow> js_error" where
  "TypeError m =
     \<lparr>err_name = ''TypeError'', err_status = None, err_code = None, err_message = Some m\<rparr>"

definition RangeError :: "string \<Rightarrow> js_error" where
  "RangeError m =
     \<lparr>err_name = ''RangeError'', err_status = None, err_code = None, err_message = Some m\<rparr>"

text \<open>Sequencing of steps that may throw: the first error ends the computation.\<close>

definition and_then :: "js_error + 'a \<Rightarrow> ('a \<Rightarrow> js_error + 'b) \<Rightarrow> js_error + 'b" where
  "and_then r f = (case r of Inl e \<Rightarrow> Inl e | Inr v \<Rightarrow> f v)"

fun sequence :: "(js_error + 'a) list \<Rightarrow> js_error + 'a list" where
  "sequence [] = Inr []"
| "sequence (r # rs) =
     (case r of Inl e \<Rightarrow> Inl e
      | Inr v \<Rightarrow> (case sequence rs of Inl e \<Rightarrow> Inl e | Inr vs \<Rightarrow> Inr (v # vs)))"

text \<open>\<^verbatim>\<open>xs.map((item, index) => f(item, index))\<close> where the callback may throw.\<close>

definition map_index :: "('a \<Rightarrow> nat \<Rightarrow> js_error + 'b) \<Rightarrow> 'a list \<Rightarrow> js_error + 'b list" where
  "map_index f xs = sequence (map (\<lambda>(index, item). f item index) (zip [0..<length xs] xs))"

text \<open>\<^verbatim>\<open>String.prototype.includes\<close>.\<close>

fun includes_str :: "string \<Rightarrow> string \<Rightarrow> bool" where
  "includes_str [] sub = (sub = [])"
| "includes_str (c # cs) sub = (prefix sub (c # cs) \<or> includes_str cs sub)"

text \<open>Truthiness, and \<^verbatim>\<open>a || b\<close>.\<close>

fun truthy :: "jsval \<Rightarrow> bool" where
  "truthy Undefined = False"
| "truthy Null = False"
| "truthy (Bool b) = b"
| "truthy (Num n) = (n \<noteq> Finite 0)"
| "truthy (Str s) = (s \<noteq> [])"
| "truthy (Arr xs) = True"
| "truthy (Obj kvs) = True"

definition js_or :: "jsval \<Rightarrow> jsval \<Rightarrow> jsval" where
  "js_or a b = (if truthy a then a else b)"

text \<open>\<^verbatim>\<open>s || d\<close> for an optional string \<open>s\<close>: \<^verbatim>\<open>undefined\<close> and \<^verbatim>\<open>""\<close> are falsy.\<close>

definition str_or :: "string option \<Rightarrow> string \<Rightarrow> string" where
  "str_or s d = (case s of None \<Rightarrow> d | Some t \<Rightarrow> if t = [] then d else t)"

definition quoted :: "string \<Rightarrow> string" where
  "quoted k = [CHR 0x27] @ k @ [CHR 0x27]"

text \<open>
  Reading a property \<^verbatim>\<open>v.k\<close>, for the names the code reads (\<^verbatim>\<open>title\<close>,
  \<^verbatim>\<open>summary\<close>, \<^verbatim>\<open>source\<close>, \<^verbatim>\<open>panels\<close>, \<^verbatim>\<open>caption\<close>, \<^verbatim>\<open>id\<close>, ...): none of them
  is a built-in property of a string, an array, a number or a boolean, so only an object
  can hold one, and \<^verbatim>\<open>null\<close> and \<^verbatim>\<open>undefined\<close> throw. An object is the list of its
  own properties, one entry for each key.
\<close>

fun get_prop :: "jsval \<Rightarrow> string \<Rightarrow> js_error + jsval" where
  "get_prop Undefined k =
     Inl (TypeError (''Cannot read properties of undefined (reading '' @ quoted k @ '')''))"
| "get_prop Null k =
     Inl (TypeError (''Cannot read properties of null (reading '' @ quoted k @ '')''))"
| "get_prop (Obj kvs) k = Inr (case map_of kvs k of None \<Rightarrow> Undefined | Some v \<Rightarrow> v)"
| "get_prop (Bool b) k = Inr Undefined"
| "get_prop (Num n) k = Inr Undefined"
| "get_prop (Str s) k = Inr Undefined"
| "get_prop (Arr xs) k = Inr Undefined"

text \<open>
  Decimal text of an integer, as \<^verbatim>\<open>String(n)\<close> gives it for the integers that the
  code makes and prints itself (array indices and the millisecond clock, all below
  \<open>2\<^sup>5\<^sup>3\<close> in size, where the text is the decimal numeral).
\<close>

definition digit_char :: "nat \<Rightarrow> char" where
  "digit_char n = char_of (48 + n)"

function digits :: "nat \<Rightarrow> string" where
  "digits n = (if n < 10 then [digit_char n] else digits (n div 10) @ [digit_char (n mod 10)])"
  by pat_completeness auto
termination
  by (relation "measure id") auto

definition show_int :: "int \<Rightarrow> string" where
  "show_int i = (if i < 0 then CHR ''-'' # digits (nat (- i)) else digits (nat i))"

text \<open>\<^verbatim>\<open>Array.prototype.join\<close>.\<close>

fun join :: "string \<Rightarrow> string list \<Rightarrow> string" where
  "join sep [] = []"
| "join sep [s] = s"
| "join sep (s # t # ss) = s @ sep @ join sep (t # ss)"

text \<open>
  The text a value gets inside a template literal \<^verbatim>\<open>`...${v}...`\<close>. An array joins the
  texts of its elements with commas, \<^verbatim>\<open>null\<close> and \<^verbatim>\<open>undefined\<close> elements giving the
  empty text. An object gives \<^verbatim>\<open>[object Object]\<close>, unless it has an own property
  \<^verbatim>\<open>toString\<close>: a value read from JSON is never callable, the inherited
  \<^verbatim>\<open>valueOf\<close> returns the object itself, and the conversion throws.
\<close>

fun js_toString :: "printer \<Rightarrow> jsval \<Rightarrow> js_error + string" where
  "js_toString numberText Undefined = Inr ''undefined''"
| "js_toString numberText Null = Inr ''null''"
| "js_toString numberText (Bool b) = Inr (if b then ''true'' else ''false'')"
| "js_toString numberText (Num n) = Inr (numberText n)"
| "js_toString numberText (Str s) = Inr s"
| "js_toString numberText (Arr xs) =
     and_then
       (sequence
          (map (\<lambda>x. if x = Undefined \<or> x = Null then Inr [] else js_toString numberText x) xs))
       (\<lambda>ss. Inr (join '','' ss))"
| "js_toString numberText (Obj kvs) =
     (if map_of kvs ''toString'' = None then Inr ''[object Object]''
      else Inl (TypeError ''Cannot convert object to primitive value''))"

section \<open>The retry wrapper\<close>

text \<open>
  \<^verbatim>\<open>
  const isQuotaError = error?.status === "RESOURCE_EXHAUSTED" || error?.code === 429
    || (error?.message && error.message.includes("429"));
  \<close>
\<close>

definition isQuotaError :: "js_error \<Rightarrow> bool" where
  "isQuotaError error \<longleftrightarrow>
     err_status error = Some ''RESOURCE_EXHAUSTED'' \<or> err_code error = Some 429 \<or>
     (case err_message error of None \<Rightarrow> False | Some m \<Rightarrow> m \<noteq> [] \<and> includes_str m ''429'')"

text \<open>
  What the code does to the outside world, in the order it does it. \<open>Invoked\<close>: the
  wrapped operation was called by \<^verbatim>\<open>retryOperation\<close>; \<open>Waited d\<close>: the wrapper
  awaited a timer of \<open>d\<close> milliseconds before a retry; \<open>Generate i d\<close>: the batch asked
  for the image of panel \<open>i\<close> with description \<open>d\<close>; \<open>Paused d\<close>: the batch awaited its
  pause of \<open>d\<close> milliseconds.
\<close>

datatype event = Invoked | Waited int | Generate int string | Paused int

record 's world =
  service :: 's
  timeline :: "event list"

definition emit :: "event \<Rightarrow> 's world \<Rightarrow> 's world" where
  "emit ev w = w\<lparr>timeline := timeline w @ [ev]\<rparr>"

text \<open>An asynchronous operation: it reads and changes the service's state and either
  resolves (\<open>Inr\<close>) or rejects (\<open>Inl\<close>).\<close>

type_synonym ('s, 'a) operation = "'s \<Rightarrow> (js_error + 'a) \<times> 's"

definition invoke :: "('s, 'a) operation \<Rightarrow> 's world \<Rightarrow> (js_error + 'a) \<times> 's world" where
  "invoke operation w =
     (case operation (service w) of (r, s') \<Rightarrow> (r, emit Invoked (w\<lparr>service := s'\<rparr>)))"

text \<open>
  \<^verbatim>\<open>
  async function retryOperation<T>(operation, retries = 3, delay = 2000): Promise<T> {
    try { return await operation(); }
    catch (error: any) {
      const isQuotaError = ...;
      if (retries > 0 && isQuotaError) {
        await new Promise(resolve => setTimeout(resolve, delay));
        return retryOperation(operation, retries - 1, delay * 2);
      }
      throw error;
    }
  }
  \<close>
\<close>

function retryOperation ::
  "('s, 'a) operation \<Rightarrow> int \<Rightarrow> int \<Rightarrow> 's world \<Rightarrow> (js_error + 'a) \<times> 's world" where
  "retryOperation operation retries delay w =
     (case invoke operation w of
        (Inr v, w') \<Rightarrow> (Inr v, w')
      | (Inl error, w') \<Rightarrow>
          if retries > 0 \<and> isQuotaError error
          then retryOperation operation (retries - 1) (delay * 2) (emit (Waited delay) w')
          else (Inl error, w'))"
  by pat_completeness auto
termination
  by (relation "measure (\<lambda>(operation, retries, delay, w). nat retries)") auto

text \<open>Every caller uses the default arguments \<^verbatim>\<open>retries = 3, delay = 2000\<close>.\<close>

definition retryOperation_default ::
  "('s, 'a) operation \<Rightarrow> 's world \<Rightarrow> (js_error + 'a) \<times> 's world" where
  "retryOperation_default operation w = retryOperation operation 3 2000 w"

section \<open>The data model\<close>

text \<open>
  \<^verbatim>\<open>types.ts\<close>. The fields that the service layer fills from parsed JSON hold whatever
  the reply held. An optional field is an \<open>option\<close>.
\<close>

datatype LayoutStyle = STORYBOOK | COMIC_STRIP

record Story =
  story_id :: string
  title :: jsval
  summary :: jsval
  source :: jsval
  panelCount :: "int option"
  visualStyle :: "string option"
  layoutStyle :: "LayoutStyle option"
  targetAudience :: "string option"

record Panel =
  panel_id :: int
  description :: string
  caption :: jsval
  imageUrl :: "string option"
  isGenerating :: bool

record AnalysisResult =
  score :: jsval
  viralPotential :: jsval
  coherenceCheck :: jsval
  critique :: jsval
  textQuality :: jsval
  visualQuality :: jsval
  suggestions :: jsval

record RefinedContent =
  newTitle :: jsval
  newSummary :: jsval
  refinedPanels :: jsval

section \<open>Prompt-and-parse operations\<close>

text \<open>
  Each operation builds a prompt, awaits \<^verbatim>\<open>ai.models.generateContent\<close> and parses the
  reply. The prompt only travels to the service, so the model takes what the awaited call
  gives back: \<open>Inl e\<close> when creating the client or the request throws \<open>e\<close>, \<open>Inr t\<close>
  with \<open>t\<close> the reply's \<^verbatim>\<open>text\<close> (which may be missing) otherwise.
  \<^verbatim>\<open>JSON.parse\<close> is the host's; it is the parameter \<open>JSON_parse\<close>, which throws
  (\<open>Inl\<close>) or returns a value. \<^verbatim>\<open>Date.now()\<close> is the parameter \<open>now\<close>.
\<close>

type_synonym reply = "js_error + string option"
type_synonym parser = "string \<Rightarrow> js_error + jsval"

subsection \<open>findViralStories\<close>

text \<open>
  \<^verbatim>\<open>text.match(/\[[\s\S]*\]/)\<close>: the match starts at the first \<^verbatim>\<open>[\<close> and, the star being
  greedy, ends at the last \<^verbatim>\<open>]\<close>; there is none when no \<^verbatim>\<open>]\<close> follows the first
  \<^verbatim>\<open>[\<close>.
\<close>

definition jsonMatch :: "string \<Rightarrow> string option" where
  "jsonMatch text =
     (case dropWhile (\<lambda>c. c \<noteq> CHR ''['') text of
        [] \<Rightarrow> None
      | b # rest \<Rightarrow>
          if CHR '']'' \<in> set rest
          then Some (b # rev (dropWhile (\<lambda>c. c \<noteq> CHR '']'') (rev rest)))
          else None)"

text \<open>
  \<^verbatim>\<open>
  let parsed: any[] = [];
  const jsonMatch = text.match(/\[[\s\S]*\]/);
  if (jsonMatch) {
    try { parsed = JSON.parse(jsonMatch[0]); } catch (e) { console.warn(...); }
  }
  \<close>
  The matched text starts with \<^verbatim>\<open>[\<close>, so \<^verbatim>\<open>JSON.parse\<close> returns an array whenever it
  returns; the source declares \<^verbatim>\<open>parsed: any[]\<close>. The last case cannot arise with the
  host's parser and leaves \<open>parsed\<close> empty.
\<close>

definition parseStories :: "parser \<Rightarrow> string \<Rightarrow> jsval list" where
  "parseStories JSON_parse text =
     (case jsonMatch text of
        None \<Rightarrow> []
      | Some m \<Rightarrow>
          (case JSON_parse m of
             Inl e \<Rightarrow> []
           | Inr (Arr items) \<Rightarrow> items
           | Inr _ \<Rightarrow> []))"

text \<open>
  The callback of \<^verbatim>\<open>parsed.map\<close>; \<open>now index\<close> is what \<^verbatim>\<open>Date.now()\<close> returns when the
  callback runs for \<open>index\<close>.
\<close>

definition storyOfItem :: "(nat \<Rightarrow> int) \<Rightarrow> string \<Rightarrow> jsval \<Rightarrow> nat \<Rightarrow> js_error + Story" where
  "storyOfItem now audience item index =
     and_then (get_prop item ''title'') (\<lambda>t.
     and_then (get_prop item ''summary'') (\<lambda>s.
     and_then (get_prop item ''source'') (\<lambda>src.
       Inr \<lparr>story_id = ''story-'' @ show_int (now index) @ ''-'' @ show_int (int index),
            title = t, summary = s, source = js_or src (Str ''Viral Source''),
            panelCount = Some 6, visualStyle = None, layoutStyle = None,
            targetAudience = Some audience\<rparr>)))"

definition fallbackStory :: "string \<Rightarrow> Story" where
  "fallbackStory audience =
     \<lparr>story_id = ''fallback-1'',
      title = Str ''Viral Story Search Result'',
      summary = Str (''We found stories but couldn'' @ [CHR 0x27] @
        ''t structure them perfectly. Try refining your search topic.''),
      source = Str ''Search System'',
      panelCount = Some 6, visualStyle = None, layoutStyle = None,
      targetAudience = Some audience\<rparr>"

text \<open>The body of the \<^verbatim>\<open>try\<close> block.\<close>

definition findViralStories_try ::
  "parser \<Rightarrow> (nat \<Rightarrow> int) \<Rightarrow> string \<Rightarrow> reply \<Rightarrow> js_error + Story list" where
  "findViralStories_try JSON_parse now audience reply =
     and_then reply (\<lambda>response_text.
       let text = str_or response_text [];
           parsed = parseStories JSON_parse text
       in if length parsed > 0 then map_index (storyOfItem now audience) parsed
          else Inr [fallbackStory audience])"

text \<open>
  \<^verbatim>\<open>
  } catch (error) {
    console.error("Error finding stories:", error);
    throw new Error("Failed to fetch viral stories.");
  }
  \<close>
\<close>

definition findViralStories ::
  "parser \<Rightarrow> (nat \<Rightarrow> int) \<Rightarrow> string \<Rightarrow> reply \<Rightarrow> js_error + Story list" where
  "findViralStories JSON_parse now audience reply =
     (case findViralStories_try JSON_parse now audience reply of
        Inr stories \<Rightarrow> Inr stories
      | Inl error \<Rightarrow> Inl (Error ''Failed to fetch viral stories.''))"

subsection \<open>createStoryFromPrompt\<close>

definition createStoryFromPrompt_try ::
  "parser \<Rightarrow> int \<Rightarrow> string \<Rightarrow> int \<Rightarrow> string \<Rightarrow> reply \<Rightarrow> js_error + Story" where
  "createStoryFromPrompt_try JSON_parse now userPrompt count audience reply =
     and_then reply (\<lambda>response_text.
     and_then (JSON_parse (str_or response_text ''{}'')) (\<lambda>data.
     and_then (get_prop data ''title'') (\<lambda>t.
     and_then (get_prop data ''summary'') (\<lambda>s.
       Inr \<lparr>story_id = ''custom-'' @ show_int now,
            title = js_or t (Str ''Untitled Story''),
            summary = js_or s (Str userPrompt),
            source = Str ''User Imagination'',
            panelCount = Some count, visualStyle = None, layoutStyle = None,
            targetAudience = Some audience\<rparr>))))"

definition customStory :: "int \<Rightarrow> string \<Rightarrow> int \<Rightarrow> string \<Rightarrow> Story" where
  "customStory now userPrompt count audience =
     \<lparr>story_id = ''custom-'' @ show_int now,
      title = Str ''My Custom Story'',
      summary = Str userPrompt,
      source = Str ''User Imagination'',
      panelCount = Some count, visualStyle = None, layoutStyle = None,
      targetAudience = Some audience\<rparr>"

text \<open>The \<^verbatim>\<open>catch\<close> block logs the error and returns \<open>customStory\<close>.\<close>

definition createStoryFromPrompt ::
  "parser \<Rightarrow> int \<Rightarrow> string \<Rightarrow> int \<Rightarrow> string \<Rightarrow> reply \<Rightarrow> js_error + Story" where
  "createStoryFromPrompt JSON_parse now userPrompt count audience reply =
     (case createStoryFromPrompt_try JSON_parse now userPrompt count audience reply of
        Inr story \<Rightarrow> Inr story
      | Inl error \<Rightarrow> Inr (customStory now userPrompt count audience))"

subsection \<open>generateScript\<close>

text \<open>
  \<^verbatim>\<open>
  return rawPanels.map((item: any, index: number) => ({
    id: index,
    description: `Style: ${style}. Characters: ${chars}. Scene: ${item.actionDescription}`,
    caption: item.caption,
    isGenerating: false,
  }));
  \<close>
\<close>

definition panelOfItem ::
  "printer \<Rightarrow> jsval \<Rightarrow> jsval \<Rightarrow> jsval \<Rightarrow> nat \<Rightarrow> js_error + Panel" where
  "panelOfItem numberText style chars item index =
     and_then (js_toString numberText style) (\<lambda>style_text.
     and_then (js_toString numberText chars) (\<lambda>chars_text.
     and_then (get_prop item ''actionDescription'') (\<lambda>action.
     and_then (js_toString numberText action) (\<lambda>action_text.
     and_then (get_prop item ''caption'') (\<lambda>c.
       Inr \<lparr>panel_id = int index,
            description = ''Style: '' @ style_text @ ''. Characters: '' @ chars_text @
              ''. Scene: '' @ action_text,
            caption = c, imageUrl = None, isGenerating = False\<rparr>)))))"

text \<open>
  The \<^verbatim>\<open>try\<close> block. The prompt interpolates \<^verbatim>\<open>story.title\<close> and
  \<^verbatim>\<open>story.summary\<close> before the request is sent. \<^verbatim>\<open>rawPanels.map\<close> is a function only
  when \<^verbatim>\<open>rawPanels\<close> is an array.
\<close>

definition generateScript_try ::
  "parser \<Rightarrow> printer \<Rightarrow> string \<Rightarrow> Story \<Rightarrow> reply \<Rightarrow> js_error + Panel list" where
  "generateScript_try JSON_parse numberText userStylePreference story reply =
     and_then (js_toString numberText (title story)) (\<lambda>title_text.
     and_then (js_toString numberText (summary story)) (\<lambda>summary_text.
     and_then reply (\<lambda>response_text.
     and_then (JSON_parse (str_or response_text ''{}'')) (\<lambda>data.
     and_then (get_prop data ''visualStyle'') (\<lambda>vs.
     and_then (get_prop data ''characterDesign'') (\<lambda>cd.
     and_then (get_prop data ''panels'') (\<lambda>ps.
       let style = js_or vs (Str userStylePreference);
           chars = js_or cd (Str []);
           rawPanels = js_or ps (Arr [])
       in (case rawPanels of
             Arr items \<Rightarrow> map_index (panelOfItem numberText style chars) items
           | _ \<Rightarrow> Inl (TypeError ''rawPanels.map is not a function'')))))))))"

text \<open>
  \<^verbatim>\<open>
  return Array(count).fill(null).map((_, i) => ({
    id: i,
    description: `Style: ${userStylePreference}. A scene from the story ${story.title}`,
    caption: "Story processing...",
    isGenerating: false
  }));
  \<close>
  \<^verbatim>\<open>Array(count)\<close> throws a \<^verbatim>\<open>RangeError\<close> unless \<open>count\<close> is an array length.
\<close>

definition placeholderPanel :: "printer \<Rightarrow> string \<Rightarrow> Story \<Rightarrow> nat \<Rightarrow> js_error + Panel" where
  "placeholderPanel numberText userStylePreference story i =
     and_then (js_toString numberText (title story)) (\<lambda>title_text.
       Inr \<lparr>panel_id = int i,
            description = ''Style: '' @ userStylePreference @ ''. A scene from the story '' @
              title_text,
            caption = Str ''Story processing...'', imageUrl = None, isGenerating = False\<rparr>)"

definition generateScript_fallback ::
  "printer \<Rightarrow> int \<Rightarrow> string \<Rightarrow> Story \<Rightarrow> js_error + Panel list" where
  "generateScript_fallback numberText count userStylePreference story =
     (if count < 0 \<or> count > 4294967295 then Inl (RangeError ''Invalid array length'')
      else sequence (map (placeholderPanel numberText userStylePreference story) [0..<nat count]))"

text \<open>\<^verbatim>\<open>const count = story.panelCount || 6;\<close>\<close>

definition scriptCount :: "Story \<Rightarrow> int" where
  "scriptCount story = (case panelCount story of None \<Rightarrow> 6 | Some n \<Rightarrow> if n = 0 then 6 else n)"

text \<open>\<^verbatim>\<open>const userStylePreference = story.visualStyle || "Vibrant Digital Cartoon";\<close>\<close>

definition scriptStyle :: "Story \<Rightarrow> string" where
  "scriptStyle story = str_or (visualStyle story) ''Vibrant Digital Cartoon''"

text \<open>
  \<^verbatim>\<open>
  try { ... } catch (error) { console.error(...); return Array(count)... }
  \<close>
\<close>

definition generateScript ::
  "parser \<Rightarrow> printer \<Rightarrow> Story \<Rightarrow> reply \<Rightarrow> js_error + Panel list" where
  "generateScript JSON_parse numberText story reply =
     (case generateScript_try JSON_parse numberText (scriptStyle story) story reply of
        Inr script \<Rightarrow> Inr script
      | Inl error \<Rightarrow>
          generateScript_fallback numberText (scriptCount story) (scriptStyle story) story)"

subsection \<open>analyzeStoryPotential\<close>

definition analyzeStoryPotential_try :: "parser \<Rightarrow> reply \<Rightarrow> js_error + AnalysisResult" where
  "analyzeStoryPotential_try JSON_parse reply =
     and_then reply (\<lambda>response_text.
     and_then (JSON_parse (str_or response_text ''{}'')) (\<lambda>data.
     and_then (get_prop data ''score'') (\<lambda>sc.
     and_then (get_prop data ''viralPotential'') (\<lambda>vp.
     and_then (get_prop data ''coherenceCheck'') (\<lambda>cc.
     and_then (get_prop data ''critique'') (\<lambda>cr.
     and_then (get_prop data ''textQuality'') (\<lambda>tq.
     and_then (get_prop data ''visualQuality'') (\<lambda>vq.
     and_then (get_prop data ''suggestions'') (\<lambda>sg.
       Inr \<lparr>score = js_or sc (Num (Finite 5)),
            viralPotential = js_or vp (Str ''Low''),
            coherenceCheck = js_or cc (Str ''Not analyzed''),
            critique = js_or cr (Str ''No feedback provided''),
            textQuality = js_or tq (Str ''Standard''),
            visualQuality = js_or vq (Str ''Standard''),
            suggestions = js_or sg (Arr [Str ''Try again''])\<rparr>)))))))))"

definition failedAnalysis :: AnalysisResult where
  "failedAnalysis =
     \<lparr>score = Num (Finite 0),
      viralPotential = Str ''Low'',
      coherenceCheck = Str ''Error'',
      critique = Str ''Failed to contact the publisher agent.'',
      textQuality = Str ''Unknown'',
      visualQuality = Str ''Unknown'',
      suggestions = Arr [Str ''Check internet connection'', Str ''Try again'']\<rparr>"

text \<open>The \<^verbatim>\<open>catch\<close> block logs the error and returns \<open>failedAnalysis\<close>.\<close>

definition analyzeStoryPotential :: "parser \<Rightarrow> reply \<Rightarrow> js_error + AnalysisResult" where
  "analyzeStoryPotential JSON_parse reply =
     (case analyzeStoryPotential_try JSON_parse reply of
        Inr result \<Rightarrow> Inr result
      | Inl error \<Rightarrow> Inr failedAnalysis)"

subsection \<open>refineStoryContent\<close>

definition refineStoryContent_try ::
  "parser \<Rightarrow> string \<Rightarrow> string \<Rightarrow> reply \<Rightarrow> js_error + RefinedContent" where
  "refineStoryContent_try JSON_parse currentTitle currentSummary reply =
     and_then reply (\<lambda>response_text.
     and_then (JSON_parse (str_or response_text ''{}'')) (\<lambda>data.
     and_then (get_prop data ''newTitle'') (\<lambda>nt.
     and_then (get_prop data ''newSummary'') (\<lambda>ns.
     and_then (get_prop data ''refinedPanels'') (\<lambda>rp.
       Inr \<lparr>newTitle = js_or nt (Str currentTitle),
            newSummary = js_or ns (Str currentSummary),
            refinedPanels = js_or rp (Arr [])\<rparr>)))))"

text \<open>
  \<^verbatim>\<open>
  } catch (error) {
    console.error("Error refining story:", error);
    throw error;
  }
  \<close>
\<close>

definition refineStoryContent ::
  "parser \<Rightarrow> string \<Rightarrow> string \<Rightarrow> reply \<Rightarrow> js_error + RefinedContent" where
  "refineStoryContent JSON_parse currentTitle currentSummary reply =
     (case refineStoryContent_try JSON_parse currentTitle currentSummary reply of
        Inr refined \<Rightarrow> Inr refined
      | Inl error \<Rightarrow> Inl error)"

section \<open>Image operations\<close>

text \<open>
  The image service keeps state between calls (its quota), so a request is an operation on
  that state. The reply carries candidates; \<open>candidates\<close> holds, for each candidate, the
  parts of its content when it has any.
\<close>

datatype inline = InlineData (inline_mimeType: "string option") (inline_data: "string option")

datatype part = Part (part_text: "string option") (inlineData: "inline option")

datatype image_response = ImageResponse (candidates: "part list option list option")

datatype request =
  Request (req_model: string) (req_parts: "part list") (req_aspectRatio: "string option")

type_synonym 's image_service = "request \<Rightarrow> ('s, image_response) operation"

definition IMAGE_MODEL :: string where
  "IMAGE_MODEL = ''gemini-2.5-flash-image''"

text \<open>\<^verbatim>\<open>response.candidates?.[0]?.content?.parts || []\<close>\<close>

definition responseParts :: "image_response \<Rightarrow> part list" where
  "responseParts response =
     (case candidates response of
        None \<Rightarrow> []
      | Some [] \<Rightarrow> []
      | Some (c # cs) \<Rightarrow> (case c of None \<Rightarrow> [] | Some ps \<Rightarrow> ps))"

text \<open>\<^verbatim>\<open>`data:image/png;base64,${part.inlineData.data}`\<close>\<close>

definition imageDataUri :: "string option \<Rightarrow> string" where
  "imageDataUri d = ''data:image/png;base64,'' @ (case d of None \<Rightarrow> ''undefined'' | Some s \<Rightarrow> s)"

text \<open>
  \<^verbatim>\<open>
  for (const part of ...) {
    if (part.inlineData) { return `data:image/png;base64,${part.inlineData.data}`; }
  }
  \<close>
\<close>

fun firstImage :: "part list \<Rightarrow> string option" where
  "firstImage [] = None"
| "firstImage (p # ps) =
     (case inlineData p of
        Some d \<Rightarrow> Some (imageDataUri (inline_data d))
      | None \<Rightarrow> firstImage ps)"

text \<open>
  What each of the three operations does with the awaited reply; its \<^verbatim>\<open>catch\<close> block
  logs the error and throws it again.
\<close>

definition extractImage :: "string \<Rightarrow> (js_error + image_response) \<times> 's \<Rightarrow> (js_error + string) \<times> 's" where
  "extractImage failure r =
     (case r of
        (Inl error, s) \<Rightarrow> (Inl error, s)
      | (Inr response, s) \<Rightarrow>
          (case firstImage (responseParts response) of
             Some url \<Rightarrow> (Inr url, s)
           | None \<Rightarrow> (Inl (Error failure), s)))"

definition panelImageOperation :: "'s image_service \<Rightarrow> string \<Rightarrow> ('s, string) operation" where
  "panelImageOperation generateContent descr s =
     extractImage ''No image data returned.''
       (generateContent (Request IMAGE_MODEL [Part (Some descr) None] (Some ''1:1'')) s)"

definition generatePanelImage ::
  "'s image_service \<Rightarrow> string \<Rightarrow> 's world \<Rightarrow> (js_error + string) \<times> 's world" where
  "generatePanelImage generateContent descr w =
     retryOperation_default (panelImageOperation generateContent descr) w"

text \<open>
  \<^verbatim>\<open>
  const prompt = `A high quality book cover illustration for a story titled "${title}".
        The story is about: ${summary}.
        Style: ${style}.
        Do NOT include text on the image.`;
  \<close>
  The component passes \<^verbatim>\<open>story.title\<close> and \<^verbatim>\<open>story.summary\<close>, which the template
  turns into text; \<open>style\<close> defaults to \<^verbatim>\<open>"Professional digital art"\<close> when it is
  \<^verbatim>\<open>undefined\<close>.
\<close>

definition coverPrompt :: "string \<Rightarrow> string \<Rightarrow> string \<Rightarrow> string" where
  "coverPrompt title_text summary_text style =
     ''A high quality book cover illustration for a story titled '' @ [CHR 0x22] @ title_text @
     [CHR 0x22] @ ''. '' @ [CHR 0x0A] @ ''      The story is about: '' @ summary_text @ ''. '' @
     [CHR 0x0A] @ ''      Style: '' @ style @ ''.'' @ [CHR 0x0A] @
     ''      Do NOT include text on the image.''"

definition coverImageOperation ::
  "printer \<Rightarrow> 's image_service \<Rightarrow> jsval \<Rightarrow> jsval \<Rightarrow> string option \<Rightarrow>
     ('s, string) operation" where
  "coverImageOperation numberText generateContent t s style st =
     (case and_then (js_toString numberText t) (\<lambda>title_text.
           and_then (js_toString numberText s) (\<lambda>summary_text.
             Inr (coverPrompt title_text summary_text
               (case style of None \<Rightarrow> ''Professional digital art'' | Some x \<Rightarrow> x)))) of
        Inl error \<Rightarrow> (Inl error, st)
      | Inr prompt \<Rightarrow>
          extractImage ''No image data returned.''
            (generateContent (Request IMAGE_MODEL [Part (Some prompt) None] (Some ''3:4'')) st))"

definition generateCoverImage ::
  "printer \<Rightarrow> 's image_service \<Rightarrow> jsval \<Rightarrow> jsval \<Rightarrow> string option \<Rightarrow> 's world \<Rightarrow>
     (js_error + string) \<times> 's world" where
  "generateCoverImage numberText generateContent t s style w =
     retryOperation_default (coverImageOperation numberText generateContent t s style) w"

text \<open>\<^verbatim>\<open>base64Image.replace(/^data:image\/(png|jpeg|jpg);base64,/, "")\<close>\<close>

definition cleanBase64 :: "string \<Rightarrow> string" where
  "cleanBase64 base64Image =
     (if prefix ''data:image/png;base64,'' base64Image
      then drop (length ''data:image/png;base64,'') base64Image
      else if prefix ''data:image/jpeg;base64,'' base64Image
      then drop (length ''data:image/jpeg;base64,'') base64Image
      else if prefix ''data:image/jpg;base64,'' base64Image
      then drop (length ''data:image/jpg;base64,'') base64Image
      else base64Image)"

definition editImageOperation :: "'s image_service \<Rightarrow> string \<Rightarrow> string \<Rightarrow> ('s, string) operation" where
  "editImageOperation generateContent base64Image prompt s =
     extractImage ''No edited image returned.''
       (generateContent
          (Request IMAGE_MODEL
             [Part None (Some (InlineData (Some ''image/png'') (Some (cleanBase64 base64Image)))),
              Part (Some prompt) None]
             None) s)"

definition editPanelImage ::
  "'s image_service \<Rightarrow> string \<Rightarrow> string \<Rightarrow> 's world \<Rightarrow> (js_error + string) \<times> 's world" where
  "editPanelImage generateContent base64Image prompt w =
     retryOperation_default (editImageOperation generateContent base64Image prompt) w"

section \<open>The ebook component\<close>

subsection \<open>base64ToBlob\<close>

text \<open>
  \<^verbatim>\<open>String.prototype.split\<close> with a separator that is not empty (both separators of the
  source are literals): \<open>cur\<close> is the piece being read.
\<close>

function split_from :: "string \<Rightarrow> string \<Rightarrow> string \<Rightarrow> string list" where
  "split_from sep cur [] = [cur]"
| "split_from sep cur (c # cs) =
     (if sep \<noteq> [] \<and> prefix sep (c # cs)
      then cur # split_from sep [] (drop (length sep) (c # cs))
      else split_from sep (cur @ [c]) cs)"
  by pat_completeness auto
termination
  by (relation "measure (\<lambda>(sep, cur, s). length s)") (auto simp: neq_Nil_conv)

definition js_split :: "string \<Rightarrow> string \<Rightarrow> string list" where
  "js_split s sep = split_from sep [] s"

text \<open>\<^verbatim>\<open>xs[i]\<close>, which is \<^verbatim>\<open>undefined\<close> out of range.\<close>

definition at_index :: "'a list \<Rightarrow> nat \<Rightarrow> 'a option" where
  "at_index xs i = (if i < length xs then Some (xs ! i) else None)"

text \<open>
  A \<^verbatim>\<open>Blob\<close>: its bytes and its type. The constructor stores the type in lower case, and
  stores the empty type when the given one has a character outside U+0020 to U+007E.
\<close>

record Blob =
  blob_bytes :: "8 word list"
  blob_type :: string

definition ascii_lower :: "char \<Rightarrow> char" where
  "ascii_lower c =
     (if 65 \<le> (of_char c :: nat) \<and> (of_char c :: nat) \<le> 90 then char_of (of_char c + 32 :: nat)
      else c)"

definition new_Blob :: "8 word list \<Rightarrow> string \<Rightarrow> Blob" where
  "new_Blob bytes t =
     \<lparr>blob_bytes = bytes,
      blob_type =
        (if \<forall>c \<in> set t. 32 \<le> (of_char c :: nat) \<and> (of_char c :: nat) \<le> 126
         then map ascii_lower t else [])\<rparr>"

text \<open>
  \<^verbatim>\<open>
  for (let i = 0; i < rawLength; ++i) { uInt8Array[i] = raw.charCodeAt(i); }
  \<close>
\<close>

function fillBytes :: "string \<Rightarrow> nat \<Rightarrow> 8 word list \<Rightarrow> 8 word list" where
  "fillBytes raw i uInt8Array =
     (if i < length raw then fillBytes raw (i + 1) (uInt8Array[i := of_char (raw ! i)])
      else uInt8Array)"
  by pat_completeness auto
termination
  by (relation "measure (\<lambda>(raw, i, uInt8Array). length raw - i)") auto

text \<open>
  \<^verbatim>\<open>
  const parts = base64.split(';base64,');
  const contentType = parts[0]?.split(':')[1] || 'image/png';
  const raw = window.atob(parts[1]);
  ...
  return new Blob([uInt8Array], { type: contentType });
  \<close>
  \<^verbatim>\<open>window.atob\<close> is the host's decoder, the parameter \<open>atob\<close>: it throws or returns the
  decoded bytes as a string of characters. It is given the text \<^verbatim>\<open>undefined\<close> when
  \<^verbatim>\<open>parts[1]\<close> is missing.
\<close>

definition base64ToBlob_try :: "(string \<Rightarrow> js_error + string) \<Rightarrow> string \<Rightarrow> js_error + Blob" where
  "base64ToBlob_try atob base64 =
     (let parts = js_split base64 '';base64,'';
          contentType =
            str_or (case at_index parts 0 of
                      None \<Rightarrow> None
                    | Some p \<Rightarrow> at_index (js_split p '':'') 1) ''image/png''
      in and_then (atob (case at_index parts 1 of None \<Rightarrow> ''undefined'' | Some d \<Rightarrow> d))
           (\<lambda>raw. Inr (new_Blob (fillBytes raw 0 (replicate (length raw) 0)) contentType)))"

text \<open>The \<^verbatim>\<open>catch\<close> block throws \<^verbatim>\<open>new Error("Invalid image data")\<close>.\<close>

definition base64ToBlob :: "(string \<Rightarrow> js_error + string) \<Rightarrow> string \<Rightarrow> js_error + Blob" where
  "base64ToBlob atob base64 =
     (case base64ToBlob_try atob base64 of
        Inr blob \<Rightarrow> Inr blob
      | Inl error \<Rightarrow> Inl (Error ''Invalid image data''))"

subsection \<open>Sequential illustration\<close>

text \<open>
  The component's state that the illustration flow reads and writes (\<^verbatim>\<open>useState\<close>),
  with the outside world.
\<close>

record 's creator =
  panels :: "Panel list"
  coverImage :: "string option"
  isCoverGenerating :: bool
  loadingScript :: bool
  env :: "'s world"

text \<open>\<^verbatim>\<open>p.imageUrl\<close> as a condition: a missing or empty URL is falsy.\<close>

definition holdsImage :: "Panel \<Rightarrow> bool" where
  "holdsImage p = (case imageUrl p of None \<Rightarrow> False | Some url \<Rightarrow> url \<noteq> [])"

text \<open>\<^verbatim>\<open>setPanels(prev => prev.map(p => p.id === id ? f(p) : p))\<close>\<close>

definition setPanel :: "int \<Rightarrow> (Panel \<Rightarrow> Panel) \<Rightarrow> 's creator \<Rightarrow> 's creator" where
  "setPanel i f st = st\<lparr>panels := map (\<lambda>p. if panel_id p = i then f p else p) (panels st)\<rparr>"

text \<open>
  \<^verbatim>\<open>
  const generateImageForPanel = async (id: number, description: string) => {
    setPanels(prev => prev.map(p => p.id === id ? { ...p, isGenerating: true } : p));
    try {
      const imageUrl = await generatePanelImage(description);
      setPanels(prev => prev.map(p => p.id === id ? { ...p, imageUrl, isGenerating: false } : p));
    } catch (e) {
      setPanels(prev => prev.map(p => p.id === id ? { ...p, isGenerating: false } : p));
    }
  };
  \<close>
\<close>

definition generateImageForPanel ::
  "'s image_service \<Rightarrow> int \<Rightarrow> string \<Rightarrow> 's creator \<Rightarrow> 's creator" where
  "generateImageForPanel generateContent i descr st =
     (let st1 = setPanel i (\<lambda>p. p\<lparr>isGenerating := True\<rparr>) st
      in case generatePanelImage generateContent descr (emit (Generate i descr) (env st1)) of
           (Inr url, w) \<Rightarrow>
             setPanel i (\<lambda>p. p\<lparr>imageUrl := Some url, isGenerating := False\<rparr>) (st1\<lparr>env := w\<rparr>)
         | (Inl e, w) \<Rightarrow>
             setPanel i (\<lambda>p. p\<lparr>isGenerating := False\<rparr>) (st1\<lparr>env := w\<rparr>))"

text \<open>
  \<^verbatim>\<open>
  for (const p of scriptPanels) {
    if (!p.imageUrl && !p.isGenerating) {
      await generateImageForPanel(p.id, p.description);
      await new Promise(r => setTimeout(r, 4000));
    }
  }
  \<close>
\<close>

fun generateImagesSequentially ::
  "'s image_service \<Rightarrow> Panel list \<Rightarrow> 's creator \<Rightarrow> 's creator" where
  "generateImagesSequentially generateContent [] st = st"
| "generateImagesSequentially generateContent (p # scriptPanels) st =
     (if \<not> holdsImage p \<and> \<not> isGenerating p
      then let st1 = generateImageForPanel generateContent (panel_id p) (description p) st;
               st2 = st1\<lparr>env := emit (Paused 4000) (env st1)\<rparr>
           in generateImagesSequentially generateContent scriptPanels st2
      else generateImagesSequentially generateContent scriptPanels st)"

text \<open>
  \<^verbatim>\<open>
  const generateCover = async () => {
    setIsCoverGenerating(true);
    try {
      const url = await generateCoverImage(story.title, story.summary, story.visualStyle);
      setCoverImage(url);
    } catch (e) { console.error("Cover generation failed", e); }
    finally { setIsCoverGenerating(false); }
  };
  \<close>
\<close>

definition generateCover ::
  "printer \<Rightarrow> 's image_service \<Rightarrow> Story \<Rightarrow> 's creator \<Rightarrow> 's creator" where
  "generateCover numberText generateContent story st =
     (let st1 = st\<lparr>isCoverGenerating := True\<rparr>
      in case generateCoverImage numberText generateContent (title story) (summary story)
                (visualStyle story) (env st1) of
           (Inr url, w) \<Rightarrow> st1\<lparr>coverImage := Some url, isCoverGenerating := False, env := w\<rparr>
         | (Inl e, w) \<Rightarrow> st1\<lparr>isCoverGenerating := False, env := w\<rparr>)"

text \<open>
  \<^verbatim>\<open>
  const initStory = async () => {
    setLoadingScript(true);
    try {
      const script = await generateScript(story);
      setPanels(script);
      setLoadingScript(false);
      await generateCover();
      await generateImagesSequentially(script);
    } catch (e) { console.error("Failed to init script", e); setLoadingScript(false); }
  };
  \<close>
  \<open>reply\<close> is what the request of \<^verbatim>\<open>generateScript\<close> gives back. The flow runs when the
  component receives its story and again on \<^verbatim>\<open>handleRetry\<close>.
\<close>

definition initStory ::
  "parser \<Rightarrow> printer \<Rightarrow> 's image_service \<Rightarrow> Story \<Rightarrow> reply \<Rightarrow> 's creator \<Rightarrow>
     's creator" where
  "initStory JSON_parse numberText generateContent story reply st =
     (let st1 = st\<lparr>loadingScript := True\<rparr>
      in case generateScript JSON_parse numberText story reply of
           Inl e \<Rightarrow> st1\<lparr>loadingScript := False\<rparr>
         | Inr script \<Rightarrow>
             generateImagesSequentially generateContent script
               (generateCover numberText generateContent story
                  (st1\<lparr>panels := script, loadingScript := False\<rparr>)))"

subsection \<open>Applying a refinement\<close>

text \<open>
  \<^verbatim>\<open>refined.refinedPanels.find(rp => rp.id === p.id)\<close>, on the elements of the array:
  the first element whose \<^verbatim>\<open>id\<close> is the panel's number, \<^verbatim>\<open>undefined\<close> (\<open>None\<close>) when
  there is none. Reading \<^verbatim>\<open>id\<close> of a \<^verbatim>\<open>null\<close> element throws.
\<close>

fun findUpdate :: "jsval list \<Rightarrow> int \<Rightarrow> js_error + jsval option" where
  "findUpdate [] i = Inr None"
| "findUpdate (rp # rps) i =
     and_then (get_prop rp ''id'') (\<lambda>v. if v = Num (Finite (of_int i)) then Inr (Some rp) else findUpdate rps i)"

text \<open>
  \<^verbatim>\<open>
  p => {
    const update = refined.refinedPanels.find(rp => rp.id === p.id);
    return update ? { ...p, caption: update.caption } : p;
  }
  \<close>
  \<^verbatim>\<open>find\<close> is a function only when \<^verbatim>\<open>refinedPanels\<close> is an array.
\<close>

definition refinePanel :: "jsval \<Rightarrow> Panel \<Rightarrow> js_error + Panel" where
  "refinePanel rps p =
     (case rps of
        Arr items \<Rightarrow>
          and_then (findUpdate items (panel_id p)) (\<lambda>update.
            case update of
              None \<Rightarrow> Inr p
            | Some u \<Rightarrow>
                if truthy u then and_then (get_prop u ''caption'') (\<lambda>c. Inr (p\<lparr>caption := c\<rparr>))
                else Inr p)
      | Undefined \<Rightarrow>
          Inl (TypeError (''Cannot read properties of undefined (reading '' @ quoted ''find'' @ '')''))
      | Null \<Rightarrow>
          Inl (TypeError (''Cannot read properties of null (reading '' @ quoted ''find'' @ '')''))
      | _ \<Rightarrow> Inl (TypeError ''refined.refinedPanels.find is not a function''))"

text \<open>
  The update that \<^verbatim>\<open>handleFixText\<close> gives to \<^verbatim>\<open>setPanels\<close>:
  \<^verbatim>\<open>prev => prev.map(p => ...)\<close>.
\<close>

definition applyRefinement :: "RefinedContent \<Rightarrow> Panel list \<Rightarrow> js_error + Panel list" where
  "applyRefinement refined prev = sequence (map (refinePanel (refinedPanels refined)) prev)"

section \<open>The host's base64\<close>

text \<open>
  \<^verbatim>\<open>window.atob\<close> and the encoding it inverts. The payload of a generated image is the
  base64 text (RFC 4648) of the image's bytes: three bytes give four characters of the
  alphabet \<^verbatim>\<open>A-Z a-z 0-9 + /\<close>, and a last group of one or two bytes is padded with
  \<^verbatim>\<open>=\<close>. \<^verbatim>\<open>atob\<close> removes ASCII whitespace, then one or two padding characters when
  the length is a multiple of four, throws when the length is then 1 modulo 4 or a
  character is outside the alphabet, and otherwise returns the decoded bytes as
  characters.
\<close>

definition b64char :: "nat \<Rightarrow> char" where
  "b64char n =
     (if n < 26 then char_of (65 + n)
      else if n < 52 then char_of (71 + n)
      else if n < 62 then char_of (n - 4)
      else if n = 62 then CHR ''+''
      else CHR ''/'')"

definition b64val :: "char \<Rightarrow> nat option" where
  "b64val c =
     (let k = (of_char c :: nat)
      in if 65 \<le> k \<and> k \<le> 90 then Some (k - 65)
         else if 97 \<le> k \<and> k \<le> 122 then Some (k - 71)
         else if 48 \<le> k \<and> k \<le> 57 then Some (k + 4)
         else if k = 43 then Some 62
         else if k = 47 then Some 63
         else None)"

text \<open>Bytes to six-bit groups, and back; a group left incomplete loses its last bits.\<close>

fun sextets :: "nat list \<Rightarrow> nat list" where
  "sextets (a # b # c # rest) =
     [a div 4, (a mod 4) * 16 + b div 16, (b mod 16) * 4 + c div 64, c mod 64] @ sextets rest"
| "sextets [a, b] = [a div 4, (a mod 4) * 16 + b div 16, (b mod 16) * 4]"
| "sextets [a] = [a div 4, (a mod 4) * 16]"
| "sextets [] = []"

fun octets :: "nat list \<Rightarrow> nat list" where
  "octets (s1 # s2 # s3 # s4 # rest) =
     [s1 * 4 + s2 div 16, (s2 mod 16) * 16 + s3 div 4, (s3 mod 4) * 64 + s4] @ octets rest"
| "octets [s1, s2, s3] = [s1 * 4 + s2 div 16, (s2 mod 16) * 16 + s3 div 4]"
| "octets [s1, s2] = [s1 * 4 + s2 div 16]"
| "octets [s1] = []"
| "octets [] = []"

definition padding :: "nat \<Rightarrow> string" where
  "padding n = (if n mod 3 = 1 then ''=='' else if n mod 3 = 2 then ''='' else [])"

definition base64_encode :: "8 word list \<Rightarrow> string" where
  "base64_encode bytes = map b64char (sextets (map unat bytes)) @ padding (length bytes)"

definition is_ascii_whitespace :: "char \<Rightarrow> bool" where
  "is_ascii_whitespace c \<longleftrightarrow> (of_char c :: nat) \<in> {9, 10, 12, 13, 32}"

definition strip_padding :: "string \<Rightarrow> string" where
  "strip_padding s =
     (if length s mod 4 = 0
      then if suffix ''=='' s then take (length s - 2) s
           else if suffix ''='' s then take (length s - 1) s
           else s
      else s)"

definition InvalidCharacterError :: js_error where
  "InvalidCharacterError =
     \<lparr>err_name = ''InvalidCharacterError'', err_status = None, err_code = None,
      err_message = Some ''The string to be decoded is not correctly encoded.''\<rparr>"

definition window_atob :: "string \<Rightarrow> js_error + string" where
  "window_atob encoded =
     (let s = strip_padding (filter (\<lambda>c. \<not> is_ascii_whitespace c) encoded)
      in if length s mod 4 = 1 then Inl InvalidCharacterError
         else case those (map b64val s) of
                None \<Rightarrow> Inl InvalidCharacterError
              | Some sx \<Rightarrow> Inr (map char_of (octets sx)))"

section \<open>Notions used to state the properties\<close>

text \<open>The script that \<^verbatim>\<open>generateScript\<close> returns from its \<^verbatim>\<open>catch\<close> block.\<close>

definition placeholderScript :: "string \<Rightarrow> string \<Rightarrow> nat \<Rightarrow> Panel list" where
  "placeholderScript style title_text n =
     map (\<lambda>i. \<lparr>panel_id = int i,
               description = ''Style: '' @ style @ ''. A scene from the story '' @ title_text,
               caption = Str ''Story processing...'', imageUrl = None, isGenerating = False\<rparr>)
       [0..<n]"

text \<open>
  What \<^verbatim>\<open>v.k\<close> reads from a value \<open>v\<close> that is neither \<^verbatim>\<open>null\<close> nor
  \<^verbatim>\<open>undefined\<close>, where the read does not throw.
\<close>

definition read_prop :: "jsval \<Rightarrow> string \<Rightarrow> jsval" where
  "read_prop v k = (case get_prop v k of Inr x \<Rightarrow> x | Inl e \<Rightarrow> Undefined)"

text \<open>The events of the batch, as opposed to those of the retry wrapper inside it.\<close>

fun isBatchEvent :: "event \<Rightarrow> bool" where
  "isBatchEvent (Generate i d) = True"
| "isBatchEvent (Paused d) = True"
| "isBatchEvent Invoked = False"
| "isBatchEvent (Waited d) = False"

definition batchEvents :: "event list \<Rightarrow> event list" where
  "batchEvents evs = filter isBatchEvent evs"

text \<open>The image-generation calls of a timeline, in order: panel number and description.\<close>

fun generateCalls :: "event list \<Rightarrow> (int \<times> string) list" where
  "generateCalls [] = []"
| "generateCalls (Generate i d # evs) = (i, d) # generateCalls evs"
| "generateCalls (ev # evs) = generateCalls evs"

text \<open>A panel that the batch does not skip.\<close>

definition needsImage :: "Panel \<Rightarrow> bool" where
  "needsImage p \<longleftrightarrow> \<not> holdsImage p \<and> \<not> isGenerating p"

text \<open>A service that answers every request with an image.\<close>

definition alwaysPaints :: "'s image_service \<Rightarrow> bool" where
  "alwaysPaints generateContent \<longleftrightarrow>
     (\<forall>req s. \<exists>response s' url.
        generateContent req s = (Inr response, s') \<and>
        firstImage (responseParts response) = Some url)"

section \<open>Sample inputs\<close>

text \<open>A throttling error and a network error, as the service's client throws them.\<close>

definition throttled :: js_error where
  "throttled =
     \<lparr>err_name = ''ApiError'', err_status = Some ''RESOURCE_EXHAUSTED'', err_code = Some 429,
      err_message = Some ''You exceeded your current quota''\<rparr>"

definition networkError :: js_error where
  "networkError = TypeError ''Failed to fetch''"

text \<open>
  Operations on a service whose state counts the calls made: throttled for the first \<open>k\<close>
  calls and successful afterwards, throttled for ever, and unreachable.
\<close>

definition flaky :: "nat \<Rightarrow> (nat, string) operation" where
  "flaky k n = (if n < k then (Inl throttled, n + 1) else (Inr ''done'', n + 1))"

definition alwaysThrottled :: "(nat, string) operation" where
  "alwaysThrottled n = (Inl throttled, n + 1)"

definition unreachable :: "(nat, string) operation" where
  "unreachable n = (Inl networkError, n + 1)"

definition offline :: "nat image_service" where
  "offline req n = (Inl networkError, n + 1)"

definition painter :: "nat image_service" where
  "painter req n =
     (Inr (ImageResponse
        (Some [Some [Part None (Some (InlineData (Some ''image/png'') (Some ''aGk='')))]])),
      n + 1)"

definition start :: "nat world" where
  "start = \<lparr>service = 0, timeline = []\<rparr>"



text \<open>
  \<^verbatim>\<open>JSON.parse\<close> on the texts used below that are JSON, and the error it throws on the
  others used below.
\<close>

definition syntaxError :: js_error where
  "syntaxError =
     \<lparr>err_name = ''SyntaxError'', err_status = None, err_code = None,
      err_message = Some ''Unexpected token in JSON''\<rparr>"

definition sampleParser :: parser where
  "sampleParser s =
     (if s = ''[{}, {}]'' then Inr (Arr [Obj [], Obj []])
      else if s = ''[null]'' then Inr (Arr [Null])
      else if s = ''{}'' then Inr (Obj [])
      else if s = ''null'' then Inr Null
      else if s = ''[]'' then Inr (Arr [])
      else Inl syntaxError)"


text \<open>\<^verbatim>\<open>Number::toString\<close> on the numbers used below.\<close>

definition sampleNumberText :: printer where
  "sampleNumberText n =
     (if n = Finite 1000000000000000000000 then ''1e+21''
      else if n = Finite (1 / 2) then ''0.5''
      else if n = Finite 7 then ''7''
      else ''0'')"

definition sampleStory :: Story where
  "sampleStory =
     \<lparr>story_id = ''story-1700000000000-0'',
      title = Str ''The Cat Who Paid Rent'',
      summary = Str ''A cat pays the rent in coins it finds.'',
      source = Str ''Reddit r/FeelGood'',
      panelCount = Some 4, visualStyle = Some ''Watercolor Book'',
      layoutStyle = Some STORYBOOK, targetAudience = Some ''Adults''\<rparr>"

text \<open>The component as it is mounted, showing the given panels.\<close>

definition mounted :: "Panel list \<Rightarrow> nat creator" where
  "mounted ps =
     \<lparr>panels = ps, coverImage = None, isCoverGenerating = True, loadingScript = True,
      env = start\<rparr>"


definition samplePanel :: "int \<Rightarrow> string \<Rightarrow> string option \<Rightarrow> bool \<Rightarrow> Panel" where
  "samplePanel i d url busy =
     \<lparr>panel_id = i, description = d, caption = Str ''Once upon a time'', imageUrl = url,
      isGenerating = busy\<rparr>"

declare retryOperation.simps [simp del]
declare digits.simps [simp del]
declare fillBytes.simps [simp del]

section \<open>Properties of the retry wrapper\<close>

lemma sequence_all_Inr:
  "(\<And>x. x \<in> set xs \<Longrightarrow> f x = Inr (g x)) \<Longrightarrow> sequence (map f xs) = Inr (map g xs)"
  by (induction xs) auto

lemma retry_success:
  "operation (service w) = (Inr v, s') \<Longrightarrow>
   retryOperation operation retries delay w =
     (Inr v, w\<lparr>service := s', timeline := timeline w @ [Invoked]\<rparr>)"
  by (subst retryOperation.simps) (simp add: invoke_def emit_def)

lemma retry_again:
  "operation (service w) = (Inl e, s') \<Longrightarrow> isQuotaError e \<Longrightarrow> 0 < retries \<Longrightarrow>
   retryOperation operation retries delay w =
     retryOperation operation (retries - 1) (delay * 2)
       (w\<lparr>service := s', timeline := timeline w @ [Invoked, Waited delay]\<rparr>)"
  by (subst retryOperation.simps) (simp add: invoke_def emit_def)

lemma retry_give_up:
  "operation (service w) = (Inl e, s') \<Longrightarrow> \<not> (0 < retries \<and> isQuotaError e) \<Longrightarrow>
   retryOperation operation retries delay w =
     (Inl e, w\<lparr>service := s', timeline := timeline w @ [Invoked]\<rparr>)"
  by (subst retryOperation.simps) (auto simp add: invoke_def emit_def)

lemma throttled_is_quota: "isQuotaError throttled"
  by (simp add: isQuotaError_def throttled_def)

lemma networkError_not_quota: "\<not> isQuotaError networkError"
  by (simp add: isQuotaError_def networkError_def TypeError_def)

text \<open>
  C3. An operation that throws a throttling error on its first two invocations and succeeds
  on the third: the wrapper, with the arguments every caller uses, returns the success
  value; the operation has been invoked three times, and the wrapper has waited 2000 ms
  before the second invocation and 4000 ms before the third, and at no other time.
\<close>

theorem retry_twice_then_success:
  assumes "operation (service w) = (Inl e1, s1)" and "isQuotaError e1"
    and "operation s1 = (Inl e2, s2)" and "isQuotaError e2"
    and "operation s2 = (Inr v, s3)"
  shows "retryOperation_default operation w =
    (Inr v, w\<lparr>service := s3,
              timeline := timeline w @ [Invoked, Waited 2000, Invoked, Waited 4000, Invoked]\<rparr>)"
  using assms
  by (simp add: retryOperation_default_def retry_again retry_success)

theorem retry_twice_then_success_witness:
  "retryOperation_default (flaky 2) start =
     (Inr ''done'',
      \<lparr>service = 3, timeline = [Invoked, Waited 2000, Invoked, Waited 4000, Invoked]\<rparr>)"
proof -
  have "flaky 2 (service start) = (Inl throttled, 1)"
    and "flaky 2 1 = (Inl throttled, 2)"
    and "flaky 2 2 = (Inr ''done'', 3)"
    by (simp_all add: flaky_def start_def)
  from retry_twice_then_success [of "flaky 2" start throttled 1 throttled 2 "''done''" 3,
      OF this(1) throttled_is_quota this(2) throttled_is_quota this(3)]
  show ?thesis by (simp add: start_def)
qed

text \<open>
  C4. An operation that throws a throttling error at every invocation: the wrapper retries
  three times, waiting 2000 ms, 4000 ms and 8000 ms, and then throws the throttling error
  of the last (fourth) invocation.
\<close>

theorem retry_exhausted:
  assumes "\<And>s. \<exists>e. fst (operation s) = Inl e \<and> isQuotaError e"
  shows "\<exists>e. isQuotaError e \<and>
     fst (operation (((snd \<circ> operation) ^^ 3) (service w))) = Inl e \<and>
     retryOperation_default operation w =
       (Inl e, w\<lparr>service := ((snd \<circ> operation) ^^ 4) (service w),
                 timeline := timeline w @
                   [Invoked, Waited 2000, Invoked, Waited 4000, Invoked, Waited 8000, Invoked]\<rparr>)"
proof -
  define s1 where "s1 = snd (operation (service w))"
  define s2 where "s2 = snd (operation s1)"
  define s3 where "s3 = snd (operation s2)"
  define s4 where "s4 = snd (operation s3)"
  obtain e1 where e1: "operation (service w) = (Inl e1, s1)" "isQuotaError e1"
    using assms [of "service w"] by (auto simp: s1_def prod_eq_iff)
  obtain e2 where e2: "operation s1 = (Inl e2, s2)" "isQuotaError e2"
    using assms [of s1] by (auto simp: s2_def prod_eq_iff)
  obtain e3 where e3: "operation s2 = (Inl e3, s3)" "isQuotaError e3"
    using assms [of s2] by (auto simp: s3_def prod_eq_iff)
  obtain e4 where e4: "operation s3 = (Inl e4, s4)" "isQuotaError e4"
    using assms [of s3] by (auto simp: s4_def prod_eq_iff)
  have iter3: "((snd \<circ> operation) ^^ 3) (service w) = s3"
    by (simp add: numeral_3_eq_3 s1_def s2_def s3_def)
  have iter4: "((snd \<circ> operation) ^^ 4) (service w) = s4"
    by (simp add: numeral_Bit0 numeral_3_eq_3 s1_def s2_def s3_def s4_def)
  have "retryOperation_default operation w =
       (Inl e4, w\<lparr>service := s4,
                 timeline := timeline w @
                   [Invoked, Waited 2000, Invoked, Waited 4000, Invoked, Waited 8000, Invoked]\<rparr>)"
    using e1 e2 e3 e4
    by (simp add: retryOperation_default_def retry_again retry_give_up)
  with e4 iter3 iter4 show ?thesis by auto
qed

theorem retry_exhausted_witness:
  "retryOperation_default alwaysThrottled start =
     (Inl throttled,
      \<lparr>service = 4,
       timeline = [Invoked, Waited 2000, Invoked, Waited 4000, Invoked, Waited 8000, Invoked]\<rparr>)"
proof -
  have always: "\<exists>e. fst (alwaysThrottled s) = Inl e \<and> isQuotaError e" for s
    by (simp add: alwaysThrottled_def throttled_is_quota)
  have "((snd \<circ> alwaysThrottled) ^^ 4) (service start) = 4"
    and "fst (alwaysThrottled (((snd \<circ> alwaysThrottled) ^^ 3) (service start))) = Inl throttled"
    by (simp_all add: alwaysThrottled_def start_def eval_nat_numeral)
  with retry_exhausted [of alwaysThrottled start, OF always] show ?thesis
    by (auto simp: start_def)
qed

text \<open>
  C5. An operation that throws an error that is not a throttling error: the wrapper,
  whatever retries it has left and whatever its delay, throws that error after the one
  invocation, without waiting.
\<close>

theorem retry_not_throttling:
  assumes "operation (service w) = (Inl e, s')" and "\<not> isQuotaError e"
  shows "retryOperation operation retries delay w =
     (Inl e, w\<lparr>service := s', timeline := timeline w @ [Invoked]\<rparr>)"
  using assms by (simp add: retry_give_up)

theorem retry_not_throttling_witness:
  "retryOperation unreachable 3 2000 start =
     (Inl networkError, \<lparr>service = 1, timeline = [Invoked]\<rparr>)"
proof -
  have "unreachable (service start) = (Inl networkError, 1)"
    by (simp add: unreachable_def start_def)
  from retry_not_throttling [of unreachable start networkError 1 3 2000, OF this
      networkError_not_quota]
  show ?thesis by (simp add: start_def)
qed

section \<open>Properties of the story search\<close>

lemma digit_char_not_dash: "n < 10 \<Longrightarrow> digit_char n \<noteq> CHR ''-''"
  by (simp add: digit_char_def char_of_eq_iff take_bit_eq_mod)

lemma digit_char_inj: "n < 10 \<Longrightarrow> m < 10 \<Longrightarrow> digit_char n = digit_char m \<Longrightarrow> n = m"
  by (simp add: digit_char_def)

lemma digits_not_Nil: "digits n \<noteq> []"
  by (subst digits.simps) simp

lemma digits_no_dash: "CHR ''-'' \<notin> set (digits n)"
proof (induction n rule: digits.induct)
  case (1 n)
  show ?case
  proof (cases "n < 10")
    case True
    then show ?thesis
      using digit_char_not_dash [of n] by (subst digits.simps) auto
  next
    case False
    then show ?thesis
      using 1 digit_char_not_dash [of "n mod 10"] by (subst digits.simps) auto
  qed
qed

lemma digits_inj: "digits n = digits m \<Longrightarrow> n = m"
proof (induction n arbitrary: m rule: digits.induct)
  case (1 n)
  show ?case
  proof (cases "n < 10")
    case True
    then have dn: "digits n = [digit_char n]" by (subst digits.simps) simp
    have "m < 10"
    proof (rule ccontr)
      assume "\<not> m < 10"
      then have "digits m = digits (m div 10) @ [digit_char (m mod 10)]"
        by (subst digits.simps) simp
      with dn "1.prems" digits_not_Nil [of "m div 10"] show False by simp
    qed
    then have "digits m = [digit_char m]" by (subst digits.simps) simp
    with dn "1.prems" True \<open>m < 10\<close> show ?thesis
      by (simp add: digit_char_inj)
  next
    case False
    then have dn: "digits n = digits (n div 10) @ [digit_char (n mod 10)]"
      by (subst digits.simps) simp
    have "\<not> m < 10"
    proof
      assume "m < 10"
      then have "digits m = [digit_char m]" by (subst digits.simps) simp
      with dn "1.prems" digits_not_Nil [of "n div 10"] show False by simp
    qed
    then have dm: "digits m = digits (m div 10) @ [digit_char (m mod 10)]"
      by (subst digits.simps) simp
    from dn dm "1.prems" have eq: "digits (n div 10) = digits (m div 10)"
      and ch: "digit_char (n mod 10) = digit_char (m mod 10)" by simp_all
    from "1.IH" [OF False eq] have "n div 10 = m div 10" .
    moreover from ch have "n mod 10 = m mod 10" by (simp add: digit_char_inj)
    ultimately show ?thesis by (metis div_mult_mod_eq)
  qed
qed

lemma show_int_nat: "show_int (int i) = digits i"
  by (simp add: show_int_def)

lemma after_last_dash:
  "CHR ''-'' \<notin> set d \<Longrightarrow> takeWhile (\<lambda>c. c \<noteq> CHR ''-'') (rev d @ CHR ''-'' # r) = rev d"
  by (induction d rule: rev_induct) auto

lemma story_id_inj:
  assumes "a @ ''-'' @ show_int (int i) = b @ ''-'' @ show_int (int j)"
  shows "i = j"
proof -
  have "rev (digits i) = takeWhile (\<lambda>c. c \<noteq> CHR ''-'') (rev (a @ CHR ''-'' # digits i))"
    by (simp add: after_last_dash digits_no_dash)
  also have "\<dots> = takeWhile (\<lambda>c. c \<noteq> CHR ''-'') (rev (b @ CHR ''-'' # digits j))"
    using assms by (simp add: show_int_nat)
  also have "\<dots> = rev (digits j)"
    by (simp add: after_last_dash digits_no_dash)
  finally show ?thesis by (simp add: digits_inj)
qed

lemma get_prop_defined:
  "item \<noteq> Null \<Longrightarrow> item \<noteq> Undefined \<Longrightarrow> \<exists>v. get_prop item k = Inr v"
  by (cases item) auto

lemma storyOfItem_defined:
  assumes "item \<noteq> Null" "item \<noteq> Undefined"
  shows "\<exists>t s src. storyOfItem now audience item index =
     Inr \<lparr>story_id = ''story-'' @ show_int (now index) @ ''-'' @ show_int (int index),
            title = t, summary = s, source = src,
            panelCount = Some 6, visualStyle = None, layoutStyle = None,
            targetAudience = Some audience\<rparr>"
  using assms by (cases item) (simp_all add: storyOfItem_def and_then_def)


lemma map_index_storyOfItem:
  assumes ok: "\<forall>item \<in> set items. item \<noteq> Null \<and> item \<noteq> Undefined"
  shows "\<exists>stories. map_index (storyOfItem now audience) items = Inr stories \<and>
     length stories = length items \<and>
     (\<forall>i < length items.
        story_id (stories ! i) = ''story-'' @ show_int (now i) @ ''-'' @ show_int (int i) \<and>
        targetAudience (stories ! i) = Some audience)"
proof -
  let ?f = "\<lambda>(index, item). storyOfItem now audience item index"
  let ?g = "\<lambda>p. projr (?f p)"
  let ?ps = "zip [0..<length items] items"
  have "sequence (map ?f ?ps) = Inr (map ?g ?ps)"
  proof (rule sequence_all_Inr)
    fix x assume "x \<in> set ?ps"
    then have "snd x \<in> set items"
      using set_zip_rightD [of "fst x" "snd x" "[0..<length items]" items] by simp
    with ok storyOfItem_defined [of "snd x" now audience "fst x"] show "?f x = Inr (?g x)"
      by (auto simp: case_prod_beta)
  qed
  then have res: "map_index (storyOfItem now audience) items = Inr (map ?g ?ps)"
    by (simp add: map_index_def)
  have "\<forall>i < length items.
        story_id (map ?g ?ps ! i) = ''story-'' @ show_int (now i) @ ''-'' @ show_int (int i) \<and>
        targetAudience (map ?g ?ps ! i) = Some audience"
  proof (intro allI impI)
    fix i assume i: "i < length items"
    then have "items ! i \<in> set items" by simp
    with ok have "items ! i \<noteq> Null" "items ! i \<noteq> Undefined" by auto
    from storyOfItem_defined [OF this, of now audience i] i
    show "story_id (map ?g ?ps ! i) = ''story-'' @ show_int (now i) @ ''-'' @ show_int (int i) \<and>
        targetAudience (map ?g ?ps ! i) = Some audience"
      by auto
  qed
  with res show ?thesis by auto
qed

text \<open>
  C9. A response from which an array is parsed that is not empty and has no \<^verbatim>\<open>null\<close>
  entry (every entry of a valid response is an object): the search returns one story for
  each parsed entry, the identifiers of the returned stories are pairwise different, and
  every returned story carries the requested target audience.
\<close>

theorem findViralStories_valid:
  assumes "jsonMatch (str_or response_text []) = Some m"
    and "JSON_parse m = Inr (Arr items)"
    and "items \<noteq> []"
    and "\<forall>item \<in> set items. item \<noteq> Null \<and> item \<noteq> Undefined"
  shows "\<exists>stories. findViralStories JSON_parse now audience (Inr response_text) = Inr stories \<and>
     length stories = length items \<and>
     distinct (map story_id stories) \<and>
     (\<forall>s \<in> set stories. targetAudience s = Some audience)"
proof -
  from map_index_storyOfItem [OF assms(4), of now audience]
  obtain stories where st: "map_index (storyOfItem now audience) items = Inr stories"
    and len: "length stories = length items"
    and fields: "\<forall>i < length items.
        story_id (stories ! i) = ''story-'' @ show_int (now i) @ ''-'' @ show_int (int i) \<and>
        targetAudience (stories ! i) = Some audience"
    by blast
  have "findViralStories JSON_parse now audience (Inr response_text) = Inr stories"
    using assms(1-3) st
    by (simp add: findViralStories_def findViralStories_try_def and_then_def parseStories_def)
  moreover have "distinct (map story_id stories)"
    unfolding distinct_conv_nth
  proof (intro allI impI)
    fix i j
    assume i: "i < length (map story_id stories)" and j: "j < length (map story_id stories)"
      and ne: "i \<noteq> j"
    show "map story_id stories ! i \<noteq> map story_id stories ! j"
    proof
      assume "map story_id stories ! i = map story_id stories ! j"
      with i j len fields
      have "(''story-'' @ show_int (now i)) @ ''-'' @ show_int (int i) =
            (''story-'' @ show_int (now j)) @ ''-'' @ show_int (int j)"
        by simp
      from story_id_inj [OF this] ne show False by simp
    qed
  qed
  moreover have "\<forall>s \<in> set stories. targetAudience s = Some audience"
    using fields len by (auto simp: in_set_conv_nth)
  ultimately show ?thesis using len by blast
qed

theorem findViralStories_valid_witness:
  "\<exists>stories.
     findViralStories sampleParser (\<lambda>i. 1700000000000) ''Adults''
       (Inr (Some ''Stories: [{}, {}]'')) = Inr stories \<and>
     length stories = 2 \<and> distinct (map story_id stories) \<and>
     (\<forall>s \<in> set stories. targetAudience s = Some ''Adults'')"
proof -
  have m: "jsonMatch (str_or (Some ''Stories: [{}, {}]'') []) = Some ''[{}, {}]''"
    by (simp add: jsonMatch_def str_or_def)
  have p: "sampleParser ''[{}, {}]'' = Inr (Arr [Obj [], Obj []])"
    by (simp add: sampleParser_def)
  have "[Obj [], Obj []] \<noteq> []"
    and "\<forall>item \<in> set [Obj [], Obj []]. item \<noteq> Null \<and> item \<noteq> Undefined"
    by simp_all
  from findViralStories_valid [where JSON_parse = sampleParser and now = "\<lambda>i. 1700000000000"
      and audience = "''Adults''", OF m p this]
  show ?thesis by (simp add: numeral_2_eq_2)
qed

text \<open>
  An entry that is \<^verbatim>\<open>null\<close> is not a story: reading its \<^verbatim>\<open>title\<close> throws, and the
  \<^verbatim>\<open>catch\<close> block of the search turns that into its generic error.
\<close>

lemma findViralStories_null_entry:
  "findViralStories sampleParser (\<lambda>i. 1700000000000) ''Adults'' (Inr (Some ''[null]'')) =
   Inl (Error ''Failed to fetch viral stories.'')"
  by (simp add: findViralStories_def findViralStories_try_def and_then_def parseStories_def
      jsonMatch_def str_or_def sampleParser_def map_index_def storyOfItem_def)

lemma findViralStories_fallback:
  assumes "jsonMatch (str_or response_text []) = None \<or>
     (\<exists>m e. jsonMatch (str_or response_text []) = Some m \<and> JSON_parse m = Inl e)"
  shows "findViralStories JSON_parse now audience (Inr response_text) =
       Inr [fallbackStory audience]"
  using assms
  by (auto simp: findViralStories_def findViralStories_try_def and_then_def parseStories_def)

text \<open>
  C10. A response text from which no JSON array can be parsed (the text has no bracketed
  part, or \<^verbatim>\<open>JSON.parse\<close> throws on the bracketed part): the search returns exactly one
  entry, the placeholder, whose source is \<^verbatim>\<open>Search System\<close>.
\<close>

theorem findViralStories_unparsable:
  assumes "jsonMatch (str_or response_text []) = None \<or>
     (\<exists>m e. jsonMatch (str_or response_text []) = Some m \<and> JSON_parse m = Inl e)"
  shows "findViralStories JSON_parse now audience (Inr response_text) =
       Inr [fallbackStory audience] \<and>
     source (fallbackStory audience) = Str ''Search System''"
  using findViralStories_fallback [OF assms] by (simp add: fallbackStory_def)

theorem findViralStories_unparsable_witness:
  "findViralStories sampleParser (\<lambda>i. 1700000000000) ''Adults''
     (Inr (Some ''Top picks [see the list] for you'')) = Inr [fallbackStory ''Adults''] \<and>
   source (fallbackStory ''Adults'') = Str ''Search System''"
proof -
  have "jsonMatch (str_or (Some ''Top picks [see the list] for you'') []) =
      Some ''[see the list]''"
    by (simp add: jsonMatch_def str_or_def)
  moreover have "sampleParser ''[see the list]'' = Inl syntaxError"
    by (simp add: sampleParser_def)
  ultimately have "jsonMatch (str_or (Some ''Top picks [see the list] for you'') []) = None \<or>
     (\<exists>m e. jsonMatch (str_or (Some ''Top picks [see the list] for you'') []) = Some m \<and>
        sampleParser m = Inl e)"
    by simp
  from findViralStories_unparsable [where JSON_parse = sampleParser, OF this]
  show ?thesis .
qed

section \<open>Unparsable replies and failed requests\<close>

lemma generateScript_fallback_value:
  assumes "js_toString numberText (title story) = Inr title_text"
    and "0 \<le> count" and "count \<le> 4294967295"
  shows "generateScript_fallback numberText count style story =
     Inr (placeholderScript style title_text (nat count))"
  using assms unfolding generateScript_fallback_def placeholderScript_def
  by (simp add: sequence_all_Inr placeholderPanel_def and_then_def)

lemma generateScript_failed:
  assumes "generateScript_try JSON_parse numberText (scriptStyle story) story reply = Inl e"
    and "js_toString numberText (title story) = Inr title_text"
    and "0 \<le> scriptCount story" and "scriptCount story \<le> 4294967295"
  shows "generateScript JSON_parse numberText story reply =
     Inr (placeholderScript (scriptStyle story) title_text (nat (scriptCount story)))"
  using assms generateScript_fallback_value [OF assms(2), of "scriptCount story"]
  by (simp add: generateScript_def)

lemma generateScript_returns:
  assumes "js_toString numberText (title story) = Inr title_text"
    and "0 \<le> scriptCount story" and "scriptCount story \<le> 4294967295"
  shows "\<exists>script. generateScript JSON_parse numberText story reply = Inr script"
proof (cases "generateScript_try JSON_parse numberText (scriptStyle story) story reply")
  case (Inl e)
  from generateScript_failed [OF Inl assms] show ?thesis by blast
next
  case (Inr script)
  then show ?thesis by (simp add: generateScript_def)
qed

lemma generateScript_try_parse_failure:
  "JSON_parse (str_or response_text ''{}'') = Inl e \<or>
   JSON_parse (str_or response_text ''{}'') = Inr Null \<Longrightarrow>
   \<exists>e'. generateScript_try JSON_parse numberText style story (Inr response_text) = Inl e'"
  by (cases "js_toString numberText (title story)";
      cases "js_toString numberText (summary story)")
     (auto simp add: generateScript_try_def and_then_def)

lemma generateScript_try_request_failure:
  "\<exists>e'. generateScript_try JSON_parse numberText style story (Inl e) = Inl e'"
  by (cases "js_toString numberText (title story)";
      cases "js_toString numberText (summary story)")
     (simp_all add: generateScript_try_def and_then_def)

lemma generateScript_no_panels:
  assumes "JSON_parse (str_or response_text ''{}'') = Inr data"
    and "data \<noteq> Null" and "data \<noteq> Undefined"
    and "js_toString numberText (title story) = Inr title_text"
    and "js_toString numberText (summary story) = Inr summary_text"
    and "\<not> truthy (read_prop data ''panels'')"
  shows "generateScript JSON_parse numberText story (Inr response_text) = Inr []"
  using assms
  by (cases data)
     (simp_all add: generateScript_def generateScript_try_def and_then_def js_or_def
       read_prop_def map_index_def Let_def)

lemma sequence_throws:
  "Inl e \<in> set rs \<Longrightarrow> \<exists>e'. sequence rs = Inl e'"
  by (induction rs) (auto split: sum.splits)

lemma map_index_throws:
  assumes "x \<in> set xs" and "\<And>i. \<exists>e. f x i = Inl e"
  shows "\<exists>e'. map_index f xs = Inl e'"
proof -
  from assms(1) obtain i where i: "i < length xs" and x: "xs ! i = x"
    by (auto simp: in_set_conv_nth)
  from assms(2) obtain e where e: "f x i = Inl e" by blast
  have "(i, x) \<in> set (zip [0..<length xs] xs)"
    using i x by (auto simp: in_set_zip intro!: exI [of _ i])
  then have "Inl e \<in> set (map (\<lambda>(index, item). f item index) (zip [0..<length xs] xs))"
    using e by force
  then show ?thesis unfolding map_index_def by (rule sequence_throws)
qed

lemma findViralStories_empty_array:
  assumes "jsonMatch (str_or response_text []) = Some m" and "JSON_parse m = Inr (Arr [])"
  shows "findViralStories JSON_parse now audience (Inr response_text) =
     Inr [fallbackStory audience]"
  using assms
  by (simp add: findViralStories_def findViralStories_try_def and_then_def parseStories_def)

lemma findViralStories_bad_entry:
  assumes "jsonMatch (str_or response_text []) = Some m" and "JSON_parse m = Inr (Arr items)"
    and "Null \<in> set items \<or> Undefined \<in> set items"
  shows "findViralStories JSON_parse now audience (Inr response_text) =
     Inl (Error ''Failed to fetch viral stories.'')"
proof -
  from assms(3) obtain x where x: "x \<in> set items" and n: "x = Null \<or> x = Undefined"
    by blast
  from n have "\<exists>e. storyOfItem now audience x i = Inl e" for i
    by (auto simp: storyOfItem_def and_then_def)
  from map_index_throws [of x items "storyOfItem now audience", OF x this]
  obtain e' where "map_index (storyOfItem now audience) items = Inl e'" by blast
  moreover from x have "items \<noteq> []" by auto
  ultimately show ?thesis
    using assms(1,2)
    by (simp add: findViralStories_def findViralStories_try_def and_then_def parseStories_def)
qed

text \<open>
  The claim C1 says that each of the five prompt-and-parse operations returns a fixed
  placeholder, and throws nothing, when the reply cannot be parsed as the expected JSON
  shape. Three replies show otherwise. On a reply that is not JSON,
  \<^verbatim>\<open>refineStoryContent\<close> throws the error of \<^verbatim>\<open>JSON.parse\<close> to its caller: its
  \<^verbatim>\<open>catch\<close> block throws the error again. On the reply \<^verbatim>\<open>[null]\<close>, an array that holds
  no story, \<^verbatim>\<open>findViralStories\<close> throws its generic error. On the reply \<^verbatim>\<open>{}\<close>, an
  object with none of the required fields, \<^verbatim>\<open>generateScript\<close> returns a script of no
  panel, where its placeholder script for the sample story has four.
\<close>

theorem refineStoryContent_throws_parse_failure:
  "refineStoryContent sampleParser ''The Cat Who Paid Rent''
     ''A cat pays the rent in coins it finds.'' (Inr (Some ''Sure! Here is the rewrite.'')) =
     Inl syntaxError \<and>
   findViralStories sampleParser (\<lambda>i. 1700000000000) ''Adults'' (Inr (Some ''[null]'')) =
     Inl (Error ''Failed to fetch viral stories.'') \<and>
   generateScript sampleParser sampleNumberText sampleStory (Inr (Some ''{}'')) = Inr [] \<and>
   generateScript sampleParser sampleNumberText sampleStory
     (Inr (Some ''Sure! Here is the rewrite.'')) =
     Inr (placeholderScript ''Watercolor Book'' ''The Cat Who Paid Rent'' 4) \<and>
   placeholderScript ''Watercolor Book'' ''The Cat Who Paid Rent'' 4 \<noteq> []"
proof (intro conjI)
  show "refineStoryContent sampleParser ''The Cat Who Paid Rent''
     ''A cat pays the rent in coins it finds.'' (Inr (Some ''Sure! Here is the rewrite.'')) =
     Inl syntaxError"
    by (simp add: refineStoryContent_def refineStoryContent_try_def and_then_def str_or_def
        sampleParser_def)
  show "findViralStories sampleParser (\<lambda>i. 1700000000000) ''Adults'' (Inr (Some ''[null]'')) =
     Inl (Error ''Failed to fetch viral stories.'')"
    by (simp add: findViralStories_def findViralStories_try_def and_then_def parseStories_def
        jsonMatch_def str_or_def sampleParser_def map_index_def storyOfItem_def)
  show "generateScript sampleParser sampleNumberText sampleStory (Inr (Some ''{}'')) = Inr []"
    by (simp add: generateScript_def generateScript_try_def and_then_def str_or_def
        sampleParser_def sampleStory_def js_or_def map_index_def)
  have "generateScript_try sampleParser sampleNumberText (scriptStyle sampleStory) sampleStory
      (Inr (Some ''Sure! Here is the rewrite.'')) = Inl syntaxError"
    by (simp add: generateScript_try_def and_then_def str_or_def sampleParser_def
        sampleStory_def)
  from generateScript_failed [OF this, of "''The Cat Who Paid Rent''"]
  show "generateScript sampleParser sampleNumberText sampleStory
     (Inr (Some ''Sure! Here is the rewrite.'')) =
     Inr (placeholderScript ''Watercolor Book'' ''The Cat Who Paid Rent'' 4)"
    by (simp add: sampleStory_def scriptCount_def scriptStyle_def str_or_def)
  show "placeholderScript ''Watercolor Book'' ''The Cat Who Paid Rent'' 4 \<noteq> []"
    by (simp add: placeholderScript_def)
qed

text \<open>
  C1, amended. \<^verbatim>\<open>createStoryFromPrompt\<close> and \<^verbatim>\<open>analyzeStoryPotential\<close> return a value
  whatever the reply, and so does \<^verbatim>\<open>generateScript\<close> for a story whose title has a text
  and whose panel count is an array length.

  On a reply that \<^verbatim>\<open>JSON.parse\<close> rejects, and on a reply that parses to \<^verbatim>\<open>null\<close>, these
  three return their fixed placeholder (the placeholder story, the placeholder analysis,
  the placeholder script of \<open>count\<close> panels), while \<^verbatim>\<open>refineStoryContent\<close> throws: the
  error of \<^verbatim>\<open>JSON.parse\<close>, or the \<^verbatim>\<open>TypeError\<close> of reading a property of \<^verbatim>\<open>null\<close>.

  On a reply that parses to any other value, a field that is missing or falsy is replaced
  by its default in the result of \<^verbatim>\<open>createStoryFromPrompt\<close>, \<^verbatim>\<open>analyzeStoryPotential\<close>
  and \<^verbatim>\<open>refineStoryContent\<close>, and \<^verbatim>\<open>generateScript\<close> returns a script of no panel when
  \<^verbatim>\<open>panels\<close> is missing or falsy.

  \<^verbatim>\<open>findViralStories\<close> returns its one placeholder story when the reply has no bracketed
  part, when \<^verbatim>\<open>JSON.parse\<close> rejects the bracketed part, and when that part is an empty
  array; it throws its generic error when an entry of the parsed array is \<^verbatim>\<open>null\<close>.
\<close>

theorem unparsable_reply:
  "(\<exists>made. createStoryFromPrompt JSON_parse now userPrompt count audience reply = Inr made) \<and>
   (\<exists>result. analyzeStoryPotential JSON_parse reply = Inr result) \<and>
   (js_toString numberText (title story) = Inr title_text \<and>
    0 \<le> scriptCount story \<and> scriptCount story \<le> 4294967295 \<longrightarrow>
    (\<exists>script. generateScript JSON_parse numberText story reply = Inr script)) \<and>
   (JSON_parse (str_or rejected ''{}'') = Inl e \<longrightarrow>
      createStoryFromPrompt JSON_parse now userPrompt count audience (Inr rejected) =
        Inr (customStory now userPrompt count audience) \<and>
      analyzeStoryPotential JSON_parse (Inr rejected) = Inr failedAnalysis \<and>
      (js_toString numberText (title story) = Inr title_text \<and>
       0 \<le> scriptCount story \<and> scriptCount story \<le> 4294967295 \<longrightarrow>
       generateScript JSON_parse numberText story (Inr rejected) =
         Inr (placeholderScript (scriptStyle story) title_text (nat (scriptCount story)))) \<and>
      refineStoryContent JSON_parse currentTitle currentSummary (Inr rejected) = Inl e) \<and>
   (JSON_parse (str_or null_text ''{}'') = Inr Null \<longrightarrow>
      createStoryFromPrompt JSON_parse now userPrompt count audience (Inr null_text) =
        Inr (customStory now userPrompt count audience) \<and>
      analyzeStoryPotential JSON_parse (Inr null_text) = Inr failedAnalysis \<and>
      (js_toString numberText (title story) = Inr title_text \<and>
       0 \<le> scriptCount story \<and> scriptCount story \<le> 4294967295 \<longrightarrow>
       generateScript JSON_parse numberText story (Inr null_text) =
         Inr (placeholderScript (scriptStyle story) title_text (nat (scriptCount story)))) \<and>
      refineStoryContent JSON_parse currentTitle currentSummary (Inr null_text) =
        Inl (TypeError (''Cannot read properties of null (reading '' @ quoted ''newTitle'' @
          '')''))) \<and>
   (JSON_parse (str_or other ''{}'') = Inr data \<and> data \<noteq> Null \<and> data \<noteq> Undefined \<longrightarrow>
      createStoryFromPrompt JSON_parse now userPrompt count audience (Inr other) =
        Inr \<lparr>story_id = ''custom-'' @ show_int now,
             title = js_or (read_prop data ''title'') (Str ''Untitled Story''),
             summary = js_or (read_prop data ''summary'') (Str userPrompt),
             source = Str ''User Imagination'',
             panelCount = Some count, visualStyle = None, layoutStyle = None,
             targetAudience = Some audience\<rparr> \<and>
      analyzeStoryPotential JSON_parse (Inr other) =
        Inr \<lparr>score = js_or (read_prop data ''score'') (Num (Finite 5)),
             viralPotential = js_or (read_prop data ''viralPotential'') (Str ''Low''),
             coherenceCheck = js_or (read_prop data ''coherenceCheck'') (Str ''Not analyzed''),
             critique = js_or (read_prop data ''critique'') (Str ''No feedback provided''),
             textQuality = js_or (read_prop data ''textQuality'') (Str ''Standard''),
             visualQuality = js_or (read_prop data ''visualQuality'') (Str ''Standard''),
             suggestions = js_or (read_prop data ''suggestions'') (Arr [Str ''Try again''])\<rparr> \<and>
      refineStoryContent JSON_parse currentTitle currentSummary (Inr other) =
        Inr \<lparr>newTitle = js_or (read_prop data ''newTitle'') (Str currentTitle),
             newSummary = js_or (read_prop data ''newSummary'') (Str currentSummary),
             refinedPanels = js_or (read_prop data ''refinedPanels'') (Arr [])\<rparr> \<and>
      (js_toString numberText (title story) = Inr title_text \<and>
       js_toString numberText (summary story) = Inr summary_text \<and>
       \<not> truthy (read_prop data ''panels'') \<longrightarrow>
       generateScript JSON_parse numberText story (Inr other) = Inr [])) \<and>
   (jsonMatch (str_or unmatched []) = None \<or>
      (\<exists>m e. jsonMatch (str_or unmatched []) = Some m \<and> JSON_parse m = Inl e) \<or>
      (\<exists>m. jsonMatch (str_or unmatched []) = Some m \<and> JSON_parse m = Inr (Arr [])) \<longrightarrow>
      findViralStories JSON_parse clock audience (Inr unmatched) =
        Inr [fallbackStory audience]) \<and>
   (jsonMatch (str_or listed []) = Some m \<and> JSON_parse m = Inr (Arr items) \<and>
      (Null \<in> set items \<or> Undefined \<in> set items) \<longrightarrow>
      findViralStories JSON_parse clock audience (Inr listed) =
        Inl (Error ''Failed to fetch viral stories.''))"
proof -
  let ?titled = "js_toString numberText (title story) = Inr title_text \<and>
    0 \<le> scriptCount story \<and> scriptCount story \<le> 4294967295"
  have total1: "\<exists>made. createStoryFromPrompt JSON_parse now userPrompt count audience reply =
      Inr made"
    by (cases "createStoryFromPrompt_try JSON_parse now userPrompt count audience reply")
       (simp_all add: createStoryFromPrompt_def)
  have total2: "\<exists>result. analyzeStoryPotential JSON_parse reply = Inr result"
    by (cases "analyzeStoryPotential_try JSON_parse reply")
       (simp_all add: analyzeStoryPotential_def)
  have total3: "\<exists>script. generateScript JSON_parse numberText story reply = Inr script"
    if "?titled"
    using that generateScript_returns [of numberText story title_text JSON_parse reply] by simp
  have script: "generateScript JSON_parse numberText story (Inr answer) =
      Inr (placeholderScript (scriptStyle story) title_text (nat (scriptCount story)))"
    if "JSON_parse (str_or answer ''{}'') = Inl e \<or>
        JSON_parse (str_or answer ''{}'') = Inr Null"
      and "?titled" for answer
  proof -
    from generateScript_try_parse_failure [where JSON_parse = JSON_parse
        and response_text = answer and e = e, OF that(1)]
    obtain e' where "generateScript_try JSON_parse numberText (scriptStyle story) story
        (Inr answer) = Inl e'"
      by blast
    with that(2) show ?thesis by (simp add: generateScript_failed)
  qed
  have rejected: "createStoryFromPrompt JSON_parse now userPrompt count audience (Inr rejected) =
        Inr (customStory now userPrompt count audience) \<and>
      analyzeStoryPotential JSON_parse (Inr rejected) = Inr failedAnalysis \<and>
      (?titled \<longrightarrow>
       generateScript JSON_parse numberText story (Inr rejected) =
         Inr (placeholderScript (scriptStyle story) title_text (nat (scriptCount story)))) \<and>
      refineStoryContent JSON_parse currentTitle currentSummary (Inr rejected) = Inl e"
    if p: "JSON_parse (str_or rejected ''{}'') = Inl e"
    using p script [of rejected]
    by (simp add: createStoryFromPrompt_def createStoryFromPrompt_try_def
        analyzeStoryPotential_def analyzeStoryPotential_try_def
        refineStoryContent_def refineStoryContent_try_def and_then_def)
  have null: "createStoryFromPrompt JSON_parse now userPrompt count audience (Inr null_text) =
        Inr (customStory now userPrompt count audience) \<and>
      analyzeStoryPotential JSON_parse (Inr null_text) = Inr failedAnalysis \<and>
      (?titled \<longrightarrow>
       generateScript JSON_parse numberText story (Inr null_text) =
         Inr (placeholderScript (scriptStyle story) title_text (nat (scriptCount story)))) \<and>
      refineStoryContent JSON_parse currentTitle currentSummary (Inr null_text) =
        Inl (TypeError (''Cannot read properties of null (reading '' @ quoted ''newTitle'' @
          '')''))"
    if p: "JSON_parse (str_or null_text ''{}'') = Inr Null"
    using p script [of null_text]
    by (simp add: createStoryFromPrompt_def createStoryFromPrompt_try_def
        analyzeStoryPotential_def analyzeStoryPotential_try_def
        refineStoryContent_def refineStoryContent_try_def and_then_def)
  have reads: "get_prop data k = Inr (read_prop data k)"
    if "data \<noteq> Null" "data \<noteq> Undefined" for k
    using that by (cases data) (simp_all add: read_prop_def)
  have other: "createStoryFromPrompt JSON_parse now userPrompt count audience (Inr other) =
        Inr \<lparr>story_id = ''custom-'' @ show_int now,
             title = js_or (read_prop data ''title'') (Str ''Untitled Story''),
             summary = js_or (read_prop data ''summary'') (Str userPrompt),
             source = Str ''User Imagination'',
             panelCount = Some count, visualStyle = None, layoutStyle = None,
             targetAudience = Some audience\<rparr> \<and>
      analyzeStoryPotential JSON_parse (Inr other) =
        Inr \<lparr>score = js_or (read_prop data ''score'') (Num (Finite 5)),
             viralPotential = js_or (read_prop data ''viralPotential'') (Str ''Low''),
             coherenceCheck = js_or (read_prop data ''coherenceCheck'') (Str ''Not analyzed''),
             critique = js_or (read_prop data ''critique'') (Str ''No feedback provided''),
             textQuality = js_or (read_prop data ''textQuality'') (Str ''Standard''),
             visualQuality = js_or (read_prop data ''visualQuality'') (Str ''Standard''),
             suggestions = js_or (read_prop data ''suggestions'') (Arr [Str ''Try again''])\<rparr> \<and>
      refineStoryContent JSON_parse currentTitle currentSummary (Inr other) =
        Inr \<lparr>newTitle = js_or (read_prop data ''newTitle'') (Str currentTitle),
             newSummary = js_or (read_prop data ''newSummary'') (Str currentSummary),
             refinedPanels = js_or (read_prop data ''refinedPanels'') (Arr [])\<rparr> \<and>
      (js_toString numberText (title story) = Inr title_text \<and>
       js_toString numberText (summary story) = Inr summary_text \<and>
       \<not> truthy (read_prop data ''panels'') \<longrightarrow>
       generateScript JSON_parse numberText story (Inr other) = Inr [])"
    if p: "JSON_parse (str_or other ''{}'') = Inr data \<and> data \<noteq> Null \<and> data \<noteq> Undefined"
  proof -
    from p have d: "JSON_parse (str_or other ''{}'') = Inr data"
      and n: "data \<noteq> Null" "data \<noteq> Undefined"
      by simp_all
    show ?thesis
      using d generateScript_no_panels [where JSON_parse = JSON_parse and response_text = other
          and data = data and numberText = numberText and story = story
          and title_text = title_text and summary_text = summary_text, OF d n]
      by (simp add: createStoryFromPrompt_def createStoryFromPrompt_try_def
          analyzeStoryPotential_def analyzeStoryPotential_try_def
          refineStoryContent_def refineStoryContent_try_def and_then_def reads [OF n])
  qed
  have unmatched: "findViralStories JSON_parse clock audience (Inr unmatched) =
        Inr [fallbackStory audience]"
    if "jsonMatch (str_or unmatched []) = None \<or>
      (\<exists>m e. jsonMatch (str_or unmatched []) = Some m \<and> JSON_parse m = Inl e) \<or>
      (\<exists>m. jsonMatch (str_or unmatched []) = Some m \<and> JSON_parse m = Inr (Arr []))"
    using that findViralStories_fallback [of unmatched JSON_parse clock audience]
      findViralStories_empty_array [of unmatched _ JSON_parse clock audience]
    by blast
  have listed: "findViralStories JSON_parse clock audience (Inr listed) =
        Inl (Error ''Failed to fetch viral stories.'')"
    if "jsonMatch (str_or listed []) = Some m \<and> JSON_parse m = Inr (Arr items) \<and>
      (Null \<in> set items \<or> Undefined \<in> set items)"
    using that findViralStories_bad_entry [of listed m JSON_parse items clock audience]
    by simp
  from total1 total2 total3 rejected null other unmatched listed
  show ?thesis by blast
qed

theorem unparsable_reply_witness:
  "(\<exists>made. createStoryFromPrompt sampleParser 1700000000000 ''a cat who pays rent'' 8
      ''Adults'' (Inl networkError) = Inr made) \<and>
   (\<exists>result. analyzeStoryPotential sampleParser (Inl networkError) = Inr result) \<and>
   (\<exists>script. generateScript sampleParser sampleNumberText sampleStory (Inl networkError) =
      Inr script) \<and>
   createStoryFromPrompt sampleParser 1700000000000 ''a cat who pays rent'' 8 ''Adults''
     (Inr (Some ''Sure! Here is the rewrite.'')) =
     Inr (customStory 1700000000000 ''a cat who pays rent'' 8 ''Adults'') \<and>
   analyzeStoryPotential sampleParser (Inr (Some ''Sure! Here is the rewrite.'')) =
     Inr failedAnalysis \<and>
   generateScript sampleParser sampleNumberText sampleStory
     (Inr (Some ''Sure! Here is the rewrite.'')) =
     Inr (placeholderScript ''Watercolor Book'' ''The Cat Who Paid Rent'' 4) \<and>
   refineStoryContent sampleParser ''The Cat'' ''A cat pays the rent.''
     (Inr (Some ''Sure! Here is the rewrite.'')) = Inl syntaxError \<and>
   createStoryFromPrompt sampleParser 1700000000000 ''a cat who pays rent'' 8 ''Adults''
     (Inr (Some ''null'')) =
     Inr (customStory 1700000000000 ''a cat who pays rent'' 8 ''Adults'') \<and>
   analyzeStoryPotential sampleParser (Inr (Some ''null'')) = Inr failedAnalysis \<and>
   generateScript sampleParser sampleNumberText sampleStory (Inr (Some ''null'')) =
     Inr (placeholderScript ''Watercolor Book'' ''The Cat Who Paid Rent'' 4) \<and>
   refineStoryContent sampleParser ''The Cat'' ''A cat pays the rent.'' (Inr (Some ''null'')) =
     Inl (TypeError (''Cannot read properties of null (reading '' @ quoted ''newTitle'' @
       '')'')) \<and>
   createStoryFromPrompt sampleParser 1700000000000 ''a cat who pays rent'' 8 ''Adults''
     (Inr (Some ''{}'')) =
     Inr \<lparr>story_id = ''custom-'' @ show_int 1700000000000,
          title = Str ''Untitled Story'', summary = Str ''a cat who pays rent'',
          source = Str ''User Imagination'',
          panelCount = Some 8, visualStyle = None, layoutStyle = None,
          targetAudience = Some ''Adults''\<rparr> \<and>
   analyzeStoryPotential sampleParser (Inr (Some ''{}'')) =
     Inr \<lparr>score = Num (Finite 5), viralPotential = Str ''Low'',
          coherenceCheck = Str ''Not analyzed'', critique = Str ''No feedback provided'',
          textQuality = Str ''Standard'', visualQuality = Str ''Standard'',
          suggestions = Arr [Str ''Try again'']\<rparr> \<and>
   refineStoryContent sampleParser ''The Cat'' ''A cat pays the rent.'' (Inr (Some ''{}'')) =
     Inr \<lparr>newTitle = Str ''The Cat'', newSummary = Str ''A cat pays the rent.'',
          refinedPanels = Arr []\<rparr> \<and>
   generateScript sampleParser sampleNumberText sampleStory (Inr (Some ''{}'')) = Inr [] \<and>
   findViralStories sampleParser (\<lambda>i. 1700000000000) ''Adults''
     (Inr (Some ''Sure! Here is the rewrite.'')) = Inr [fallbackStory ''Adults''] \<and>
   findViralStories sampleParser (\<lambda>i. 1700000000000) ''Adults'' (Inr (Some ''[null]'')) =
     Inl (Error ''Failed to fetch viral stories.'')"
proof -
  have rejected: "sampleParser (str_or (Some ''Sure! Here is the rewrite.'') ''{}'') =
      Inl syntaxError"
    by (simp add: sampleParser_def str_or_def)
  have null: "sampleParser (str_or (Some ''null'') ''{}'') = Inr Null"
    by (simp add: sampleParser_def str_or_def)
  have other: "sampleParser (str_or (Some ''{}'') ''{}'') = Inr (Obj [])"
    by (simp add: sampleParser_def str_or_def)
  have titled: "js_toString sampleNumberText (title sampleStory) =
      Inr ''The Cat Who Paid Rent''"
    "js_toString sampleNumberText (summary sampleStory) =
      Inr ''A cat pays the rent in coins it finds.''"
    "0 \<le> scriptCount sampleStory" "scriptCount sampleStory \<le> 4294967295"
    by (simp_all add: sampleStory_def scriptCount_def)
  have unmatched: "jsonMatch (str_or (Some ''Sure! Here is the rewrite.'') []) = None"
    by (simp add: jsonMatch_def str_or_def)
  have listed: "jsonMatch (str_or (Some ''[null]'') []) = Some ''[null]''"
    "sampleParser ''[null]'' = Inr (Arr [Null])"
    by (simp_all add: jsonMatch_def str_or_def sampleParser_def)
  have v: "scriptStyle sampleStory = ''Watercolor Book''" "nat (scriptCount sampleStory) = 4"
    by (simp_all add: sampleStory_def scriptStyle_def scriptCount_def str_or_def)
  have r: "read_prop (Obj []) k = Undefined" for k
    by (simp add: read_prop_def)
  from unparsable_reply [where JSON_parse = sampleParser and numberText = sampleNumberText
      and reply = "Inl networkError"
      and rejected = "Some ''Sure! Here is the rewrite.''" and e = syntaxError
      and null_text = "Some ''null''" and other = "Some ''{}''" and data = "Obj []"
      and unmatched = "Some ''Sure! Here is the rewrite.''"
      and listed = "Some ''[null]''" and m = "''[null]''" and items = "[Null]"
      and story = sampleStory and title_text = "''The Cat Who Paid Rent''"
      and summary_text = "''A cat pays the rent in coins it finds.''"
      and now = 1700000000000 and userPrompt = "''a cat who pays rent''" and count = 8
      and audience = "''Adults''" and currentTitle = "''The Cat''"
      and currentSummary = "''A cat pays the rent.''" and clock = "\<lambda>i. 1700000000000"]
    rejected null other titled unmatched listed v r
  show ?thesis by (simp add: js_or_def)
qed

lemma extractImage_failure: "extractImage failure (Inl e, s) = (Inl e, s)"
  by (simp add: extractImage_def)

text \<open>
  The text of a title that is a number is the host's: with \<^verbatim>\<open>1e21\<close> as title the prompt
  of the cover and the placeholder script carry \<^verbatim>\<open>1e+21\<close>.
\<close>

lemma numeric_title:
  "generateScript sampleParser sampleNumberText
     (sampleStory\<lparr>title := Num (Finite 1000000000000000000000)\<rparr>) (Inl networkError) =
   Inr (placeholderScript ''Watercolor Book'' ''1e+21'' 4)"
proof -
  let ?story = "sampleStory\<lparr>title := Num (Finite 1000000000000000000000)\<rparr>"
  obtain e' where "generateScript_try sampleParser sampleNumberText (scriptStyle ?story) ?story
      (Inl networkError) = Inl e'"
    using generateScript_try_request_failure by blast
  from generateScript_failed [OF this, of "''1e+21''"]
  show ?thesis
    by (simp add: sampleStory_def scriptCount_def scriptStyle_def str_or_def
        sampleNumberText_def)
qed

text \<open>
  The claim C6 says that every operation surfaces a failed request as an error.
  \<^verbatim>\<open>createStoryFromPrompt\<close> does not: when the request fails with a network error, which
  is not a throttling error, its \<^verbatim>\<open>catch\<close> block returns the placeholder story.
\<close>

theorem createStoryFromPrompt_hides_request_failure:
  "\<not> isQuotaError networkError \<and>
   createStoryFromPrompt sampleParser 1700000000000 ''a dragon who bakes bread'' 8
     ''Children (4-8 years)'' (Inl networkError) =
   Inr (customStory 1700000000000 ''a dragon who bakes bread'' 8 ''Children (4-8 years)'')"
  by (simp add: createStoryFromPrompt_def createStoryFromPrompt_try_def and_then_def
      isQuotaError_def networkError_def TypeError_def)

text \<open>
  C6, amended. A failed request is surfaced by \<^verbatim>\<open>findViralStories\<close>, as the error
  \<^verbatim>\<open>Failed to fetch viral stories.\<close>, and by \<^verbatim>\<open>refineStoryContent\<close>, which throws
  the failure itself; \<^verbatim>\<open>generatePanelImage\<close>, \<^verbatim>\<open>generateCoverImage\<close> (for a title and
  a summary that have a text) and \<^verbatim>\<open>editPanelImage\<close> throw a failure that is not a
  throttling error after the one request, without waiting. \<^verbatim>\<open>createStoryFromPrompt\<close>,
  \<^verbatim>\<open>analyzeStoryPotential\<close> and \<^verbatim>\<open>generateScript\<close> (for a story whose title has a text
  and whose panel count is an array length) return their placeholder instead. The text of
  a title or summary is what the host's conversion to a string gives, whatever it is.
\<close>

theorem request_failure:
  "findViralStories JSON_parse now audience (Inl e) =
     Inl (Error ''Failed to fetch viral stories.'') \<and>
   refineStoryContent JSON_parse currentTitle currentSummary (Inl e) = Inl e \<and>
   (\<not> isQuotaError e \<longrightarrow>
      (generateContent (Request IMAGE_MODEL [Part (Some descr) None] (Some ''1:1'')) (service w) =
         (Inl e, s') \<longrightarrow>
       generatePanelImage generateContent descr w =
         (Inl e, w\<lparr>service := s', timeline := timeline w @ [Invoked]\<rparr>)) \<and>
      (js_toString numberText t = Inr title_text \<and> js_toString numberText s = Inr summary_text \<and>
       generateContent
         (Request IMAGE_MODEL
            [Part (Some (coverPrompt title_text summary_text
               (case style of None \<Rightarrow> ''Professional digital art'' | Some x \<Rightarrow> x))) None]
            (Some ''3:4'')) (service w) = (Inl e, s') \<longrightarrow>
       generateCoverImage numberText generateContent t s style w =
         (Inl e, w\<lparr>service := s', timeline := timeline w @ [Invoked]\<rparr>)) \<and>
      (generateContent
         (Request IMAGE_MODEL
            [Part None (Some (InlineData (Some ''image/png'') (Some (cleanBase64 base64Image)))),
             Part (Some prompt) None] None) (service w) = (Inl e, s') \<longrightarrow>
       editPanelImage generateContent base64Image prompt w =
         (Inl e, w\<lparr>service := s', timeline := timeline w @ [Invoked]\<rparr>))) \<and>
   createStoryFromPrompt JSON_parse now' userPrompt count audience (Inl e) =
     Inr (customStory now' userPrompt count audience) \<and>
   analyzeStoryPotential JSON_parse (Inl e) = Inr failedAnalysis \<and>
   (js_toString numberText (title story) = Inr story_title \<and>
    0 \<le> scriptCount story \<and> scriptCount story \<le> 4294967295 \<longrightarrow>
    generateScript JSON_parse numberText story (Inl e) =
      Inr (placeholderScript (scriptStyle story) story_title (nat (scriptCount story))))"
proof (intro conjI impI)
  show "findViralStories JSON_parse now audience (Inl e) =
     Inl (Error ''Failed to fetch viral stories.'')"
    by (simp add: findViralStories_def findViralStories_try_def and_then_def)
  show "refineStoryContent JSON_parse currentTitle currentSummary (Inl e) = Inl e"
    by (simp add: refineStoryContent_def refineStoryContent_try_def and_then_def)
  show "createStoryFromPrompt JSON_parse now' userPrompt count audience (Inl e) =
     Inr (customStory now' userPrompt count audience)"
    by (simp add: createStoryFromPrompt_def createStoryFromPrompt_try_def and_then_def)
  show "analyzeStoryPotential JSON_parse (Inl e) = Inr failedAnalysis"
    by (simp add: analyzeStoryPotential_def analyzeStoryPotential_try_def and_then_def)
next
  assume q: "\<not> isQuotaError e"
    and g: "generateContent (Request IMAGE_MODEL [Part (Some descr) None] (Some ''1:1''))
      (service w) = (Inl e, s')"
  then have "panelImageOperation generateContent descr (service w) = (Inl e, s')"
    by (simp add: panelImageOperation_def extractImage_failure)
  with q show "generatePanelImage generateContent descr w =
         (Inl e, w\<lparr>service := s', timeline := timeline w @ [Invoked]\<rparr>)"
    by (simp add: generatePanelImage_def retryOperation_default_def retry_give_up)
next
  assume q: "\<not> isQuotaError e"
    and g: "js_toString numberText t = Inr title_text \<and>
       js_toString numberText s = Inr summary_text \<and>
       generateContent
         (Request IMAGE_MODEL
            [Part (Some (coverPrompt title_text summary_text
               (case style of None \<Rightarrow> ''Professional digital art'' | Some x \<Rightarrow> x))) None]
            (Some ''3:4'')) (service w) = (Inl e, s')"
  then have "coverImageOperation numberText generateContent t s style (service w) = (Inl e, s')"
    by (simp add: coverImageOperation_def and_then_def extractImage_failure)
  with q show "generateCoverImage numberText generateContent t s style w =
         (Inl e, w\<lparr>service := s', timeline := timeline w @ [Invoked]\<rparr>)"
    by (simp add: generateCoverImage_def retryOperation_default_def retry_give_up)
next
  assume q: "\<not> isQuotaError e"
    and g: "generateContent
         (Request IMAGE_MODEL
            [Part None (Some (InlineData (Some ''image/png'') (Some (cleanBase64 base64Image)))),
             Part (Some prompt) None] None) (service w) = (Inl e, s')"
  then have "editImageOperation generateContent base64Image prompt (service w) = (Inl e, s')"
    by (simp add: editImageOperation_def extractImage_failure)
  with q show "editPanelImage generateContent base64Image prompt w =
         (Inl e, w\<lparr>service := s', timeline := timeline w @ [Invoked]\<rparr>)"
    by (simp add: editPanelImage_def retryOperation_default_def retry_give_up)
next
  assume s: "js_toString numberText (title story) = Inr story_title \<and>
    0 \<le> scriptCount story \<and> scriptCount story \<le> 4294967295"
  from generateScript_try_request_failure [of JSON_parse numberText "scriptStyle story" story e]
  obtain e' where "generateScript_try JSON_parse numberText (scriptStyle story) story (Inl e) =
      Inl e'"
    by blast
  with s show "generateScript JSON_parse numberText story (Inl e) =
      Inr (placeholderScript (scriptStyle story) story_title (nat (scriptCount story)))"
    by (simp add: generateScript_failed)
qed

theorem request_failure_witness:
  "findViralStories sampleParser (\<lambda>i. 1700000000000) ''Adults'' (Inl networkError) =
     Inl (Error ''Failed to fetch viral stories.'') \<and>
   refineStoryContent sampleParser ''The Cat'' ''A cat pays the rent.'' (Inl networkError) =
     Inl networkError \<and>
   generatePanelImage offline ''A cat at the door'' start =
     (Inl networkError, \<lparr>service = 1, timeline = [Invoked]\<rparr>) \<and>
   generateCoverImage sampleNumberText offline (Num (Finite 7)) (Str ''A cat pays the rent.'')
     None start =
     (Inl networkError, \<lparr>service = 1, timeline = [Invoked]\<rparr>) \<and>
   editPanelImage offline ''data:image/png;base64,aGk='' ''make it night'' start =
     (Inl networkError, \<lparr>service = 1, timeline = [Invoked]\<rparr>) \<and>
   createStoryFromPrompt sampleParser 1700000000000 ''a cat who pays rent'' 8 ''Adults''
     (Inl networkError) = Inr (customStory 1700000000000 ''a cat who pays rent'' 8 ''Adults'') \<and>
   analyzeStoryPotential sampleParser (Inl networkError) = Inr failedAnalysis \<and>
   generateScript sampleParser sampleNumberText sampleStory (Inl networkError) =
     Inr (placeholderScript ''Watercolor Book'' ''The Cat Who Paid Rent'' 4)"
proof -
  have q: "\<not> isQuotaError networkError"
    by (simp add: isQuotaError_def networkError_def TypeError_def)
  have o: "offline req (service start) = (Inl networkError, 1)" for req
    by (simp add: offline_def start_def)
  have t: "js_toString sampleNumberText (Num (Finite 7)) = Inr ''7''"
    "js_toString sampleNumberText (Str ''A cat pays the rent.'') = Inr ''A cat pays the rent.''"
    by (simp_all add: sampleNumberText_def)
  have s: "js_toString sampleNumberText (title sampleStory) = Inr ''The Cat Who Paid Rent'' \<and>
      0 \<le> scriptCount sampleStory \<and> scriptCount sampleStory \<le> 4294967295"
    by (simp add: sampleStory_def scriptCount_def)
  have v: "scriptStyle sampleStory = ''Watercolor Book''" "nat (scriptCount sampleStory) = 4"
    by (simp_all add: sampleStory_def scriptStyle_def scriptCount_def str_or_def)
  from request_failure [where JSON_parse = sampleParser and numberText = sampleNumberText
      and e = networkError
      and generateContent = offline and w = start and s' = 1
      and descr = "''A cat at the door''"
      and t = "Num (Finite 7)" and s = "Str ''A cat pays the rent.''" and style = None
      and title_text = "''7''" and summary_text = "''A cat pays the rent.''"
      and base64Image = "''data:image/png;base64,aGk=''" and prompt = "''make it night''"
      and story = sampleStory and story_title = "''The Cat Who Paid Rent''"
      and now = "\<lambda>i. 1700000000000" and audience = "''Adults''"
      and now' = 1700000000000 and userPrompt = "''a cat who pays rent''" and count = 8
      and currentTitle = "''The Cat''" and currentSummary = "''A cat pays the rent.''"]
    q o t s v
  show ?thesis by (simp add: start_def)
qed

section \<open>Properties of applying a refinement\<close>

lemma findUpdate_find:
  "\<forall>rp \<in> set rps. rp \<noteq> Null \<and> rp \<noteq> Undefined \<Longrightarrow>
   findUpdate rps i = Inr (List.find (\<lambda>rp. get_prop rp ''id'' = Inr (Num (Finite (of_int i)))) rps)"
proof (induction rps)
  case Nil
  then show ?case by simp
next
  case (Cons rp rps)
  then show ?case by (cases rp) (auto simp: and_then_def)
qed

lemma matched_is_object:
  "get_prop u ''id'' = Inr (Num (Finite (of_int i))) \<Longrightarrow> \<exists>kvs. u = Obj kvs"
  by (cases u) auto

lemma refinePanel_value:
  assumes "\<forall>rp \<in> set rps. rp \<noteq> Null \<and> rp \<noteq> Undefined"
  shows "refinePanel (Arr rps) p =
     Inr (case List.find (\<lambda>rp. get_prop rp ''id'' = Inr (Num (Finite (of_int (panel_id p))))) rps of
            None \<Rightarrow> p
          | Some u \<Rightarrow> p\<lparr>caption := projr (get_prop u ''caption'')\<rparr>)"
proof (cases "List.find (\<lambda>rp. get_prop rp ''id'' = Inr (Num (Finite (of_int (panel_id p))))) rps")
  case None
  then show ?thesis
    by (simp add: refinePanel_def findUpdate_find [OF assms] and_then_def)
next
  case (Some u)
  then have "get_prop u ''id'' = Inr (Num (Finite (of_int (panel_id p))))"
    by (auto simp: find_Some_iff)
  then obtain kvs where "u = Obj kvs" using matched_is_object by blast
  with Some show ?thesis
    by (simp add: refinePanel_def findUpdate_find [OF assms] and_then_def)
qed

text \<open>
  C7. For every panel list and every refinement result whose \<^verbatim>\<open>refinedPanels\<close> is an
  array of entries (none of them \<^verbatim>\<open>null\<close>), applying the refinement succeeds and keeps
  the number and order of the panels; a panel whose identifier appears in no entry is
  unchanged; a panel whose identifier appears in an entry gets the caption of the first
  such entry and is otherwise unchanged.
\<close>

theorem applyRefinement_frame:
  assumes "refinedPanels refined = Arr rps"
    and "\<forall>rp \<in> set rps. rp \<noteq> Null \<and> rp \<noteq> Undefined"
  shows "\<exists>ps. applyRefinement refined prev = Inr ps \<and> length ps = length prev \<and>
     (\<forall>i < length prev.
        ((\<forall>rp \<in> set rps. get_prop rp ''id'' \<noteq> Inr (Num (Finite (of_int (panel_id (prev ! i)))))) \<longrightarrow>
           ps ! i = prev ! i) \<and>
        (\<forall>u. List.find (\<lambda>rp. get_prop rp ''id'' = Inr (Num (Finite (of_int (panel_id (prev ! i)))))) rps = Some u \<longrightarrow>
           (\<exists>c. get_prop u ''caption'' = Inr c \<and> ps ! i = (prev ! i)\<lparr>caption := c\<rparr>)))"
proof -
  let ?g = "\<lambda>p. case List.find (\<lambda>rp. get_prop rp ''id'' = Inr (Num (Finite (of_int (panel_id p))))) rps of
            None \<Rightarrow> p
          | Some u \<Rightarrow> p\<lparr>caption := projr (get_prop u ''caption'')\<rparr>"
  have res: "applyRefinement refined prev = Inr (map ?g prev)"
    unfolding applyRefinement_def assms(1)
    by (rule sequence_all_Inr) (rule refinePanel_value [OF assms(2)])
  have "\<forall>i < length prev.
        ((\<forall>rp \<in> set rps. get_prop rp ''id'' \<noteq> Inr (Num (Finite (of_int (panel_id (prev ! i)))))) \<longrightarrow>
           map ?g prev ! i = prev ! i) \<and>
        (\<forall>u. List.find (\<lambda>rp. get_prop rp ''id'' = Inr (Num (Finite (of_int (panel_id (prev ! i)))))) rps = Some u \<longrightarrow>
           (\<exists>c. get_prop u ''caption'' = Inr c \<and> map ?g prev ! i = (prev ! i)\<lparr>caption := c\<rparr>))"
  proof (intro allI impI conjI)
    fix i assume "i < length prev"
      and "\<forall>rp \<in> set rps. get_prop rp ''id'' \<noteq> Inr (Num (Finite (of_int (panel_id (prev ! i)))))"
    then show "map ?g prev ! i = prev ! i"
      by (simp add: find_None_iff [THEN iffD2])
  next
    fix i u assume i: "i < length prev"
      and f: "List.find (\<lambda>rp. get_prop rp ''id'' = Inr (Num (Finite (of_int (panel_id (prev ! i)))))) rps = Some u"
    then have "get_prop u ''id'' = Inr (Num (Finite (of_int (panel_id (prev ! i)))))"
      by (auto simp: find_Some_iff)
    then obtain kvs where "u = Obj kvs" using matched_is_object by blast
    then have "get_prop u ''caption'' = Inr (projr (get_prop u ''caption''))" by simp
    with i f show "\<exists>c. get_prop u ''caption'' = Inr c \<and> map ?g prev ! i = (prev ! i)\<lparr>caption := c\<rparr>"
      by auto
  qed
  with res show ?thesis by auto
qed

theorem applyRefinement_frame_witness:
  "\<exists>ps. applyRefinement
       \<lparr>newTitle = Str ''The Cat Pays'', newSummary = Str ''A cat pays the rent.'',
        refinedPanels = Arr [Obj [(''id'', Num (Finite 1)), (''caption'', Str ''The cat knocked twice.'')]]\<rparr>
       [samplePanel 0 ''A door'' None False, samplePanel 1 ''A cat'' None False] = Inr ps \<and>
     length ps = 2 \<and>
     ps ! 0 = samplePanel 0 ''A door'' None False \<and>
     ps ! 1 = (samplePanel 1 ''A cat'' None False)\<lparr>caption := Str ''The cat knocked twice.''\<rparr>"
proof -
  let ?rps = "[Obj [(''id'', Num (Finite 1)), (''caption'', Str ''The cat knocked twice.'')]]"
  let ?refined = "\<lparr>newTitle = Str ''The Cat Pays'', newSummary = Str ''A cat pays the rent.'',
        refinedPanels = Arr ?rps\<rparr>"
  let ?prev = "[samplePanel 0 ''A door'' None False, samplePanel 1 ''A cat'' None False]"
  have "refinedPanels ?refined = Arr ?rps"
    and "\<forall>rp \<in> set ?rps. rp \<noteq> Null \<and> rp \<noteq> Undefined"
    by simp_all
  from applyRefinement_frame [OF this, of ?prev]
  obtain ps where r: "applyRefinement ?refined ?prev = Inr ps" and l: "length ps = length ?prev"
    and f: "\<forall>i < length ?prev.
        ((\<forall>rp \<in> set ?rps. get_prop rp ''id'' \<noteq> Inr (Num (Finite (of_int (panel_id (?prev ! i)))))) \<longrightarrow>
           ps ! i = ?prev ! i) \<and>
        (\<forall>u. List.find (\<lambda>rp. get_prop rp ''id'' = Inr (Num (Finite (of_int (panel_id (?prev ! i)))))) ?rps = Some u \<longrightarrow>
           (\<exists>c. get_prop u ''caption'' = Inr c \<and> ps ! i = (?prev ! i)\<lparr>caption := c\<rparr>))"
    by blast
  from f [rule_format, of 0] have "ps ! 0 = samplePanel 0 ''A door'' None False"
    by (simp add: samplePanel_def)
  moreover from f [rule_format, of 1]
  have "ps ! 1 = (samplePanel 1 ''A cat'' None False)\<lparr>caption := Str ''The cat knocked twice.''\<rparr>"
    by (simp add: samplePanel_def)
  ultimately show ?thesis using r l by simp
qed

section \<open>Properties of the sequential illustration\<close>

lemma retryOperation_batchEvents:
  "batchEvents (timeline (snd (retryOperation operation retries delay w))) =
   batchEvents (timeline w)"
proof (induction operation retries delay w rule: retryOperation.induct)
  case (1 operation retries delay w)
  obtain r s' where op: "operation (service w) = (r, s')" by (cases "operation (service w)")
  show ?case
  proof (cases r)
    case (Inr v)
    with op show ?thesis
      by (subst retryOperation.simps) (simp add: invoke_def emit_def batchEvents_def)
  next
    case (Inl e)
    show ?thesis
    proof (cases "retries > 0 \<and> isQuotaError e")
      case True
      have inv: "invoke operation w = (Inl e, emit Invoked (w\<lparr>service := s'\<rparr>))"
        using op Inl by (simp add: invoke_def)
      from "1.IH" [OF inv [symmetric] refl True]
      show ?thesis
        using inv True
        by (subst retryOperation.simps) (simp add: emit_def batchEvents_def)
    next
      case False
      with op Inl show ?thesis
        by (subst retryOperation.simps) (auto simp add: invoke_def emit_def batchEvents_def)
    qed
  qed
qed

lemma setPanel_env: "env (setPanel i f st) = env st"
  by (simp add: setPanel_def)

lemma generateImageForPanel_batchEvents:
  "batchEvents (timeline (env (generateImageForPanel generateContent i d st))) =
   batchEvents (timeline (env st)) @ [Generate i d]"
proof -
  let ?w = "emit (Generate i d) (env (setPanel i (\<lambda>p. p\<lparr>isGenerating := True\<rparr>) st))"
  obtain r w' where g: "generatePanelImage generateContent d ?w = (r, w')"
    by (cases "generatePanelImage generateContent d ?w")
  then have "batchEvents (timeline w') = batchEvents (timeline ?w)"
    using retryOperation_batchEvents [of "panelImageOperation generateContent d" 3 2000 ?w]
    by (simp add: generatePanelImage_def retryOperation_default_def)
  then have "batchEvents (timeline w') = batchEvents (timeline (env st)) @ [Generate i d]"
    by (simp add: emit_def batchEvents_def setPanel_env)
  with g show ?thesis
    by (cases r) (simp_all add: generateImageForPanel_def Let_def setPanel_env)
qed

lemma batch_events:
  "batchEvents (timeline (env (generateImagesSequentially generateContent ps st))) =
   batchEvents (timeline (env st)) @
   concat (map (\<lambda>p. [Generate (panel_id p) (description p), Paused 4000]) (filter needsImage ps))"
proof (induction ps arbitrary: st)
  case Nil
  then show ?case by simp
next
  case (Cons p ps)
  show ?case
  proof (cases "needsImage p")
    case True
    let ?st1 = "generateImageForPanel generateContent (panel_id p) (description p) st"
    let ?st2 = "?st1\<lparr>env := emit (Paused 4000) (env ?st1)\<rparr>"
    have "batchEvents (timeline (env ?st2)) =
        batchEvents (timeline (env st)) @ [Generate (panel_id p) (description p), Paused 4000]"
      by (simp add: emit_def batchEvents_def
          generateImageForPanel_batchEvents [unfolded batchEvents_def])
    with True Cons.IH [of ?st2] show ?thesis
      by (simp add: needsImage_def Let_def)
  next
    case False
    with Cons.IH [of st] show ?thesis by (auto simp add: needsImage_def)
  qed
qed

lemma generateCalls_append: "generateCalls (xs @ ys) = generateCalls xs @ generateCalls ys"
  by (induction xs rule: generateCalls.induct) auto

lemma generateCalls_batchEvents: "generateCalls (batchEvents evs) = generateCalls evs"
  by (induction evs rule: generateCalls.induct) (auto simp: batchEvents_def)

lemma generateCalls_batch:
  "generateCalls (concat (map (\<lambda>p. [Generate (panel_id p) (description p), Paused 4000]) ps)) =
   map (\<lambda>p. (panel_id p, description p)) ps"
  by (induction ps) auto

text \<open>
  The batch on the list of panels it is given, from any state of the component and of the
  service: the batch events it adds to the timeline are, for each panel of the list that
  neither holds an image nor is marked mid-generation, in the order of the list, one
  image-generation call for that panel followed by one pause of 4000 ms; a panel of the
  list that holds an image or is marked mid-generation gets no call.
\<close>

lemma batch_calls:
  "batchEvents (timeline (env (generateImagesSequentially generateContent ps st))) =
     batchEvents (timeline (env st)) @
     concat (map (\<lambda>p. [Generate (panel_id p) (description p), Paused 4000])
       (filter needsImage ps)) \<and>
   ((\<forall>p \<in> set ps. \<not> holdsImage p \<and> \<not> isGenerating p) \<longrightarrow>
     generateCalls (timeline (env (generateImagesSequentially generateContent ps st))) =
       generateCalls (timeline (env st)) @ map (\<lambda>p. (panel_id p, description p)) ps)"
proof (intro conjI impI)
  show b: "batchEvents (timeline (env (generateImagesSequentially generateContent ps st))) =
     batchEvents (timeline (env st)) @
     concat (map (\<lambda>p. [Generate (panel_id p) (description p), Paused 4000])
       (filter needsImage ps))"
    by (rule batch_events)
  assume "\<forall>p \<in> set ps. \<not> holdsImage p \<and> \<not> isGenerating p"
  then have "filter needsImage ps = ps" by (simp add: needsImage_def)
  with b have "generateCalls (batchEvents
       (timeline (env (generateImagesSequentially generateContent ps st)))) =
     generateCalls (batchEvents (timeline (env st)) @
       concat (map (\<lambda>p. [Generate (panel_id p) (description p), Paused 4000]) ps))"
    by simp
  then show "generateCalls (timeline (env (generateImagesSequentially generateContent ps st))) =
       generateCalls (timeline (env st)) @ map (\<lambda>p. (panel_id p, description p)) ps"
    by (simp add: generateCalls_batchEvents generateCalls_append generateCalls_batch)
qed

lemma batch_calls_sample:
  "generateCalls (timeline (env (generateImagesSequentially painter
      [samplePanel 0 ''A door'' None False, samplePanel 1 ''A cat'' None False]
      (mounted [samplePanel 0 ''A door'' None False, samplePanel 1 ''A cat'' None False])))) =
     [(0, ''A door''), (1, ''A cat'')] \<and>
   batchEvents (timeline (env (generateImagesSequentially painter
      [samplePanel 0 ''A door'' (Some ''data:image/png;base64,aGk='') False,
       samplePanel 1 ''A cat'' None True, samplePanel 2 ''A coin'' None False]
      (mounted [])))) = [Generate 2 ''A coin'', Paused 4000]"
proof -
  let ?fresh = "[samplePanel 0 ''A door'' None False, samplePanel 1 ''A cat'' None False]"
  let ?mixed = "[samplePanel 0 ''A door'' (Some ''data:image/png;base64,aGk='') False,
       samplePanel 1 ''A cat'' None True, samplePanel 2 ''A coin'' None False]"
  have fresh: "\<forall>p \<in> set ?fresh. \<not> holdsImage p \<and> \<not> isGenerating p"
    by (simp add: samplePanel_def holdsImage_def)
  have mixed: "filter needsImage ?mixed = [samplePanel 2 ''A coin'' None False]"
    by (simp add: samplePanel_def holdsImage_def needsImage_def)
  from batch_calls [of painter ?fresh "mounted ?fresh"] fresh
  have "generateCalls (timeline (env (generateImagesSequentially painter ?fresh
      (mounted ?fresh)))) = [(0, ''A door''), (1, ''A cat'')]"
    by (simp add: start_def mounted_def samplePanel_def)
  moreover
  from batch_calls [of painter ?mixed "mounted []"] mixed
  have "batchEvents (timeline (env (generateImagesSequentially painter ?mixed
      (mounted [])))) = [Generate 2 ''A coin'', Paused 4000]"
    by (simp add: start_def mounted_def batchEvents_def samplePanel_def)
  ultimately show ?thesis by simp
qed

section \<open>The illustration flow as the component runs it\<close>

lemma sequence_Inr_nth:
  "sequence (map f xs) = Inr ys \<Longrightarrow>
   length ys = length xs \<and> (\<forall>i < length xs. f (xs ! i) = Inr (ys ! i))"
proof (induction xs arbitrary: ys)
  case Nil
  then show ?case by simp
next
  case (Cons x xs)
  from Cons.prems obtain v vs where v: "f x = Inr v" and vs: "sequence (map f xs) = Inr vs"
    and ys: "ys = v # vs"
    by (auto split: sum.splits)
  from Cons.IH [OF vs] v ys show ?case
    by (auto simp: nth_Cons split: nat.splits)
qed

lemma map_index_nth:
  assumes "map_index f xs = Inr ys"
  shows "length ys = length xs \<and> (\<forall>i < length xs. f (xs ! i) i = Inr (ys ! i))"
proof -
  from assms sequence_Inr_nth [of "\<lambda>(index, item). f item index" "zip [0..<length xs] xs" ys]
  show ?thesis by (simp add: map_index_def)
qed

lemma panelOfItem_fresh:
  "panelOfItem numberText style chars item index = Inr p \<Longrightarrow>
   panel_id p = int index \<and> needsImage p"
  by (auto simp: panelOfItem_def and_then_def needsImage_def holdsImage_def split: sum.splits)

lemma placeholderPanel_fresh:
  "placeholderPanel numberText style story index = Inr p \<Longrightarrow> panel_id p = int index \<and> needsImage p"
  by (auto simp: placeholderPanel_def and_then_def needsImage_def holdsImage_def
      split: sum.splits)

lemma fresh_script:
  assumes len: "length script = n"
    and each: "\<forall>i < n. panel_id (script ! i) = int i \<and> needsImage (script ! i)"
  shows "map panel_id script = map int [0..<length script] \<and> (\<forall>p \<in> set script. needsImage p)"
proof
  show "map panel_id script = map int [0..<length script]"
    using len each by (auto intro: nth_equalityI)
  show "\<forall>p \<in> set script. needsImage p"
    using len each by (auto simp: in_set_conv_nth)
qed

lemma generateScript_try_fresh:
  assumes "generateScript_try JSON_parse numberText style story reply = Inr script"
  shows "map panel_id script = map int [0..<length script] \<and> (\<forall>p \<in> set script. needsImage p)"
proof -
  from assms obtain st ch items where
    m: "map_index (panelOfItem numberText st ch) items = Inr script"
    by (auto simp: generateScript_try_def and_then_def Let_def
        split: sum.splits jsval.splits)
  from map_index_nth [OF m] have "length script = length items"
    and "\<forall>i < length items. panelOfItem numberText st ch (items ! i) i = Inr (script ! i)"
    by simp_all
  then show ?thesis
    using panelOfItem_fresh by (intro fresh_script [of script "length items"]) auto
qed

lemma generateScript_fallback_fresh:
  assumes "generateScript_fallback numberText count style story = Inr script"
  shows "map panel_id script = map int [0..<length script] \<and> (\<forall>p \<in> set script. needsImage p)"
proof -
  from assms have s: "sequence (map (placeholderPanel numberText style story) [0..<nat count]) = Inr script"
    by (auto simp: generateScript_fallback_def split: if_splits)
  from sequence_Inr_nth [OF s] have "length script = nat count"
    and "\<forall>i < nat count. placeholderPanel numberText style story i = Inr (script ! i)"
    by simp_all
  then show ?thesis
    using placeholderPanel_fresh by (intro fresh_script [of script "nat count"]) auto
qed

text \<open>
  Every script that \<^verbatim>\<open>generateScript\<close> returns numbers its panels 0, 1, 2, ... in
  order, and none of its panels holds an image or is marked mid-generation.
\<close>

lemma generateScript_fresh:
  assumes "generateScript JSON_parse numberText story reply = Inr script"
  shows "map panel_id script = map int [0..<length script] \<and> (\<forall>p \<in> set script. needsImage p)"
proof (cases "generateScript_try JSON_parse numberText (scriptStyle story) story reply")
  case (Inr s)
  with assms have "s = script" by (simp add: generateScript_def)
  with Inr generateScript_try_fresh show ?thesis by blast
next
  case (Inl e)
  with assms have "generateScript_fallback numberText (scriptCount story) (scriptStyle story) story =
      Inr script"
    by (simp add: generateScript_def)
  then show ?thesis by (rule generateScript_fallback_fresh)
qed

lemma generateCover_batchEvents:
  "batchEvents (timeline (env (generateCover numberText generateContent story st))) =
   batchEvents (timeline (env st))"
proof -
  obtain r w where g: "generateCoverImage numberText generateContent (title story) (summary story)
      (visualStyle story) (env st) = (r, w)"
    by (cases "generateCoverImage numberText generateContent (title story) (summary story)
      (visualStyle story) (env st)")
  then have "batchEvents (timeline w) = batchEvents (timeline (env st))"
    using retryOperation_batchEvents [of "coverImageOperation numberText generateContent (title story)
      (summary story) (visualStyle story)" 3 2000 "env st"]
    by (simp add: generateCoverImage_def retryOperation_default_def)
  with g show ?thesis by (cases r) (simp_all add: generateCover_def Let_def)
qed

text \<open>
  The flow \<^verbatim>\<open>initStory\<close>, each time it runs: when the script has N panels, the batch
  events it adds are one image-generation call and one pause of 4000 ms for each of the
  panels 0, ..., N - 1 of the new script, in ascending order. The panels of the state
  before the run are replaced by the new script, whether or not they held images.
\<close>

lemma initStory_batch:
  assumes "generateScript JSON_parse numberText story reply = Inr script"
  shows "batchEvents (timeline (env (initStory JSON_parse numberText generateContent story reply st))) =
     batchEvents (timeline (env st)) @
     concat (map (\<lambda>p. [Generate (panel_id p) (description p), Paused 4000]) script) \<and>
   map panel_id script = map int [0..<length script]"
proof -
  from generateScript_fresh [OF assms] have ids: "map panel_id script = map int [0..<length script]"
    and "\<forall>p \<in> set script. needsImage p" by simp_all
  then have "filter needsImage script = script" by simp
  with assms ids show ?thesis
    by (simp add: initStory_def Let_def batch_events generateCover_batchEvents)
qed

section \<open>Properties of the data URI\<close>

lemma split_from_no_sep:
  "\<not> includes_str s sep \<Longrightarrow> split_from sep cur s = [cur @ s]"
  by (induction s arbitrary: cur) auto

lemma fillBytes_from:
  "i \<le> length raw \<Longrightarrow> length arr = length raw \<Longrightarrow>
   fillBytes raw i arr = take i arr @ map of_char (drop i raw)"
proof (induction raw i arr rule: fillBytes.induct)
  case (1 raw i arr)
  show ?case
  proof (cases "i < length raw")
    case True
    then have "fillBytes raw i arr = fillBytes raw (i + 1) (arr[i := of_char (raw ! i)])"
      by (subst fillBytes.simps) simp
    also have "\<dots> = take (i + 1) (arr[i := of_char (raw ! i)]) @ map of_char (drop (i + 1) raw)"
      using "1.IH" [OF True] True "1.prems" by simp
    also have "\<dots> = take i arr @ map of_char (drop i raw)"
      using True "1.prems"
      by (simp add: take_Suc_conv_app_nth Cons_nth_drop_Suc [symmetric])
    finally show ?thesis .
  next
    case False
    with "1.prems" show ?thesis by (subst fillBytes.simps) simp
  qed
qed

lemma fillBytes_all: "fillBytes raw 0 (replicate (length raw) 0) = map of_char raw"
  by (simp add: fillBytes_from)

lemma split_data_uri:
  "\<not> includes_str d '';base64,'' \<Longrightarrow>
   js_split (''data:image/png;base64,'' @ d) '';base64,'' = [''data:image/png'', d]"
  by (simp add: js_split_def split_from_no_sep)

lemma split_mime: "js_split ''data:image/png'' '':'' = [''data'', ''image/png'']"
  by (simp add: js_split_def)

lemma new_Blob_png: "new_Blob bytes ''image/png'' = \<lparr>blob_bytes = bytes, blob_type = ''image/png''\<rparr>"
  by (simp add: new_Blob_def ascii_lower_def)

lemma base64ToBlob_imageDataUri:
  assumes "atob d = Inr raw" and "\<not> includes_str d '';base64,''"
  shows "base64ToBlob atob (imageDataUri (Some d)) =
     Inr \<lparr>blob_bytes = map of_char raw, blob_type = ''image/png''\<rparr>"
  using assms
  by (simp add: base64ToBlob_def base64ToBlob_try_def imageDataUri_def split_data_uri split_mime
      at_index_def str_or_def and_then_def fillBytes_all new_Blob_png del: append.simps)

lemma byte_of_char_of: "(of_char (char_of (unat (w :: 8 word))) :: 8 word) = w"
proof -
  have "unat w < 256" using unsigned_less [of w, where ?'a = nat] by simp
  then have b: "(of_char (char_of (unat w)) :: nat) = unat w" by simp
  have "(of_char (char_of (unat w)) :: 8 word) = of_nat (of_char (char_of (unat w)) :: nat)"
    by (rule of_nat_of_char [symmetric])
  also have "\<dots> = of_nat (unat w)" by (simp only: b)
  also have "\<dots> = w" by simp
  finally show ?thesis .
qed

lemma of_char_b64char:
  "n < 64 \<Longrightarrow> (of_char (b64char n) :: nat) =
     (if n < 26 then 65 + n else if n < 52 then 71 + n else if n < 62 then n - 4
      else if n = 62 then 43 else 47)"
  by (simp add: b64char_def)

lemma b64val_b64char: "n < 64 \<Longrightarrow> b64val (b64char n) = Some n"
  by (auto simp add: b64val_def of_char_b64char Let_def)



lemma octet1:
  assumes "b < 256"
  shows "a div 4 * 4 + (a mod 4 * 16 + b div 16) div 16 = (a::nat)"
proof -
  from assms have "b div 16 < 16" by simp
  then have "(a mod 4 * 16 + b div 16) div 16 = a mod 4" by simp
  then show ?thesis by simp
qed

lemma octet2:
  assumes "b < 256" and "c < 256"
  shows "(a mod 4 * 16 + b div 16) mod 16 * 16 + (b mod 16 * 4 + c div 64) div 4 = (b::nat)"
proof -
  from assms have "b div 16 < 16" and "c div 64 < 4" by simp_all
  then have "(a mod 4 * 16 + b div 16) mod 16 = b div 16"
    and "(b mod 16 * 4 + c div 64) div 4 = b mod 16"
    by simp_all
  then show ?thesis by simp
qed

lemma octet3:
  assumes "c < 256"
  shows "(b mod 16 * 4 + c div 64) mod 4 * 64 + c mod 64 = (c::nat)"
proof -
  from assms have "c div 64 < 4" by simp
  then have "(b mod 16 * 4 + c div 64) mod 4 = c div 64" by simp
  then show ?thesis by simp
qed

lemma octets_sextets: "\<forall>b \<in> set bs. b < 256 \<Longrightarrow> octets (sextets bs) = bs"
proof (induction bs rule: sextets.induct)
  case (1 a b c rest)
  then have "b < 256" "c < 256" by simp_all
  with 1 show ?case by (simp add: octet1 octet2 octet3)
next
  case (2 a b)
  then have "b < 256" by simp
  then show ?case using octet1 [of b a] octet2 [of b 0 a] by simp
next
  case (3 a)
  then show ?case using octet1 [of 0 a] by simp
next
  case 4
  then show ?case by simp
qed

lemma sextets_bound: "\<forall>b \<in> set bs. b < 256 \<Longrightarrow> \<forall>s \<in> set (sextets bs). s < 64"
proof (induction bs rule: sextets.induct)
  case (1 a b c rest)
  then have "a < 256" "b < 256" "c < 256" by simp_all
  then have "a div 4 < 64" "a mod 4 * 16 + b div 16 < 64" "b mod 16 * 4 + c div 64 < 64"
    by (simp_all add: less_mult_imp_div_less)
  with 1 show ?case by simp
next
  case (2 a b)
  then have "a < 256" "b < 256" by simp_all
  then have "a div 4 < 64" "a mod 4 * 16 + b div 16 < 64" "b mod 16 * 4 < 64"
    by (simp_all add: less_mult_imp_div_less)
  then show ?case by simp
next
  case (3 a)
  then have "a < 256" by simp
  then have "a div 4 < 64" "a mod 4 * 16 < 64" by (simp_all add: less_mult_imp_div_less)
  then show ?case by simp
next
  case 4
  then show ?case by simp
qed


lemma b64char_plain:
  assumes "n < 64"
  shows "\<not> is_ascii_whitespace (b64char n) \<and> b64char n \<noteq> CHR ''='' \<and> b64char n \<noteq> CHR '';''"
proof -
  from assms have notin: "(of_char (b64char n) :: nat) \<notin> {9, 10, 12, 13, 32, 61, 59}"
    by (auto simp add: of_char_b64char split: if_splits)
  have "b64char n \<noteq> CHR ''=''"
  proof
    assume "b64char n = CHR ''=''"
    then have "(of_char (b64char n) :: nat) = 61" by simp
    with notin show False by simp
  qed
  moreover have "b64char n \<noteq> CHR '';''"
  proof
    assume "b64char n = CHR '';''"
    then have "(of_char (b64char n) :: nat) = 59" by simp
    with notin show False by simp
  qed
  ultimately show ?thesis using notin by (simp add: is_ascii_whitespace_def)
qed

lemma length_sextets_eq:
  "length (sextets bs) =
     4 * (length bs div 3) + (if length bs mod 3 = 0 then 0 else length bs mod 3 + 1)"
  by (induction bs rule: sextets.induct) (simp_all add: div_add_self1)

lemma length_sextets:
  "length (sextets bs) mod 4 \<noteq> 1 \<and> (length (sextets bs) + length (padding (length bs))) mod 4 = 0"
proof -
  have "length bs mod 3 = 0 \<or> length bs mod 3 = 1 \<or> length bs mod 3 = 2" by arith
  then show ?thesis
    by (auto simp add: length_sextets_eq padding_def)
qed

lemma those_b64val:
  "\<forall>s \<in> set sx. s < 64 \<Longrightarrow> those (map b64val (map b64char sx)) = Some sx"
  by (induction sx) (simp_all add: b64val_b64char)

lemma strip_padding_encoded:
  assumes "CHR ''='' \<notin> set body" and "length (body @ padding n) mod 4 = 0"
  shows "strip_padding (body @ padding n) = body"
proof -
  have no: "\<not> suffix ''='' body" "\<not> suffix ''=='' body"
    using assms(1) by (auto simp: suffix_def)
  have "padding n = [] \<or> padding n = ''='' \<or> padding n = ''==''"
    by (simp add: padding_def)
  then consider "padding n = []" | "padding n = ''=''" | "padding n = ''==''"
    by blast
  then show ?thesis
  proof cases
    case 1
    with no show ?thesis by (simp add: strip_padding_def)
  next
    case 2
    have "\<not> suffix ''=='' (body @ ''='')"
      using assms(1) by (auto simp: suffix_def append_eq_append_conv2 Cons_eq_append_conv)
    with 2 assms(2) show ?thesis by (simp add: strip_padding_def suffix_def)
  next
    case 3
    with assms(2) show ?thesis by (simp add: strip_padding_def suffix_def)
  qed
qed

lemma includes_str_subset: "includes_str s sub \<Longrightarrow> set sub \<subseteq> set s"
proof (induction s)
  case Nil
  then show ?case by simp
next
  case (Cons a s)
  from Cons.prems consider "prefix sub (a # s)" | "includes_str s sub" by auto
  then show ?case
  proof cases
    case 1
    then show ?thesis by (rule set_mono_prefix)
  next
    case 2
    with Cons.IH show ?thesis by auto
  qed
qed

lemma sextets_of_bytes: "\<forall>s \<in> set (sextets (map unat (bytes :: 8 word list))). s < 64"
proof -
  have "\<forall>b \<in> set (map unat bytes). b < 256"
    using unsigned_less [where ?'a = nat and ?'b = 8] by auto
  then show ?thesis by (rule sextets_bound)
qed

lemma body_chars:
  assumes "c \<in> set (map b64char (sextets (map unat (bytes :: 8 word list))))"
  shows "\<not> is_ascii_whitespace c \<and> c \<noteq> CHR ''='' \<and> c \<noteq> CHR '';''"
proof -
  from assms obtain s where "s \<in> set (sextets (map unat bytes))" and c: "c = b64char s"
    by auto
  with sextets_of_bytes have "s < 64" by blast
  with c show ?thesis by (simp add: b64char_plain)
qed

lemma padding_chars:
  assumes "c \<in> set (padding n)"
  shows "c = CHR ''=''"
  using assms by (auto simp: padding_def split: if_splits)

lemma base64_encode_chars:
  assumes "c \<in> set (base64_encode bytes)"
  shows "\<not> is_ascii_whitespace c \<and> c \<noteq> CHR '';''"
proof -
  from assms consider "c \<in> set (map b64char (sextets (map unat bytes)))"
    | "c \<in> set (padding (length bytes))"
    by (auto simp: base64_encode_def)
  then show ?thesis
  proof cases
    case 1
    then show ?thesis using body_chars by blast
  next
    case 2
    then have "c = CHR ''=''" by (rule padding_chars)
    then show ?thesis by (simp add: is_ascii_whitespace_def)
  qed
qed

lemma window_atob_base64_encode:
  "window_atob (base64_encode bytes) = Inr (map char_of (map unat bytes))"
proof -
  let ?bs = "map unat bytes"
  let ?body = "map b64char (sextets ?bs)"
  have bytes: "\<forall>b \<in> set ?bs. b < 256"
    using unsigned_less [where ?'a = nat and ?'b = 8] by auto
  have "filter (\<lambda>c. \<not> is_ascii_whitespace c) (base64_encode bytes) = base64_encode bytes"
    using base64_encode_chars [of _ bytes] by (simp add: filter_id_conv)
  moreover have "CHR ''='' \<notin> set ?body" using body_chars [of "CHR ''=''" bytes] by blast
  moreover have "length (?body @ padding (length bytes)) mod 4 = 0"
    using length_sextets [of ?bs] by simp
  ultimately have s: "strip_padding (filter (\<lambda>c. \<not> is_ascii_whitespace c)
      (base64_encode bytes)) = ?body"
    by (simp add: base64_encode_def strip_padding_encoded)
  have "length ?body mod 4 \<noteq> 1" using length_sextets [of ?bs] by simp
  moreover have "those (map b64val ?body) = Some (sextets ?bs)"
    using sextets_of_bytes by (rule those_b64val)
  moreover have "octets (sextets ?bs) = ?bs" using bytes by (rule octets_sextets)
  ultimately show ?thesis by (simp add: window_atob_def s)
qed

lemma bytes_of_chars: "map of_char (map char_of (map unat bytes)) = (bytes :: 8 word list)"
  by (induction bytes) (simp_all add: byte_of_char_of)

text \<open>
  C8. A generated image is returned as the data URI \<^verbatim>\<open>data:image/png;base64,<data>\<close>,
  where \<^verbatim>\<open>data\<close> is the base64 payload of the service's reply. Whatever the decoder,
  for every payload that it accepts and that does not hold \<^verbatim>\<open>;base64,\<close>, decoding that
  data URI gives a blob whose bytes are exactly the decoded bytes of the payload and whose
  type is \<^verbatim>\<open>image/png\<close>. With the host's decoder and the base64 text of any binary
  content as the payload, the blob's bytes are that binary content, byte for byte.
\<close>

theorem data_uri_round_trip:
  "(atob d = Inr raw \<and> \<not> includes_str d '';base64,'' \<longrightarrow>
      base64ToBlob atob (imageDataUri (Some d)) =
        Inr \<lparr>blob_bytes = map of_char raw, blob_type = ''image/png''\<rparr>) \<and>
   base64ToBlob window_atob (imageDataUri (Some (base64_encode bytes))) =
     Inr \<lparr>blob_bytes = bytes, blob_type = ''image/png''\<rparr>"
proof (intro conjI impI)
  assume "atob d = Inr raw \<and> \<not> includes_str d '';base64,''"
  then show "base64ToBlob atob (imageDataUri (Some d)) =
        Inr \<lparr>blob_bytes = map of_char raw, blob_type = ''image/png''\<rparr>"
    by (simp add: base64ToBlob_imageDataUri)
next
  have "\<not> includes_str (base64_encode bytes) '';base64,''"
    using includes_str_subset [of "base64_encode bytes" "'';base64,''"]
      base64_encode_chars [of "CHR '';''" bytes]
    by auto
  from base64ToBlob_imageDataUri [where atob = window_atob and d = "base64_encode bytes",
      OF window_atob_base64_encode this]
  show "base64ToBlob window_atob (imageDataUri (Some (base64_encode bytes))) =
     Inr \<lparr>blob_bytes = bytes, blob_type = ''image/png''\<rparr>"
    by (simp only: bytes_of_chars)
qed

theorem data_uri_round_trip_witness:
  "window_atob ''aGk='' = Inr ''hi'' \<and> base64_encode [104, 105] = ''aGk='' \<and>
   base64ToBlob window_atob ''data:image/png;base64,aGk='' =
     Inr \<lparr>blob_bytes = [104, 105], blob_type = ''image/png''\<rparr>"
proof -
  have a: "window_atob ''aGk='' = Inr ''hi''"
    by code_simp
  have n: "\<not> includes_str ''aGk='' '';base64,''" by simp
  have e: "base64_encode [104, 105] = ''aGk=''"
    by code_simp
  have u: "imageDataUri (Some ''aGk='') = ''data:image/png;base64,aGk=''"
    by (simp add: imageDataUri_def)
  from data_uri_round_trip [where atob = window_atob and d = "''aGk=''" and raw = "''hi''"
      and bytes = "[104, 105]"] a n e u
  show ?thesis by simp
qed

section \<open>Re-entering the illustration flow\<close>

text \<open>A batch over panels that all hold an image or are mid-generation does nothing.\<close>

lemma batch_nothing_to_do:
  "\<forall>p \<in> set ps. \<not> needsImage p \<Longrightarrow> generateImagesSequentially generateContent ps st = st"
  by (induction ps) (auto simp: needsImage_def)

lemma imageDataUri_not_empty: "imageDataUri d \<noteq> []"
  by (simp add: imageDataUri_def)

lemma firstImage_not_empty: "firstImage ps = Some url \<Longrightarrow> url \<noteq> []"
  by (induction ps) (auto simp: imageDataUri_not_empty split: option.splits)

text \<open>One generation that succeeds at the first request.\<close>

lemma generateImageForPanel_success:
  assumes "generateContent (Request IMAGE_MODEL [Part (Some d) None] (Some ''1:1''))
      (service (env st)) = (Inr response, s')"
    and "firstImage (responseParts response) = Some url"
  shows "panels (generateImageForPanel generateContent i d st) =
     map (\<lambda>p. if panel_id p = i then p\<lparr>imageUrl := Some url, isGenerating := False\<rparr> else p)
       (panels st) \<and> url \<noteq> []"
proof -
  let ?w = "emit (Generate i d) (env st)"
  have "panelImageOperation generateContent d (service ?w) = (Inr url, s')"
    using assms by (simp add: panelImageOperation_def extractImage_def emit_def)
  then have "generatePanelImage generateContent d ?w =
      (Inr url, ?w\<lparr>service := s', timeline := timeline ?w @ [Invoked]\<rparr>)"
    by (simp add: generatePanelImage_def retryOperation_default_def retry_success)
  then have "panels (generateImageForPanel generateContent i d st) =
     map (\<lambda>p. if panel_id p = i then p\<lparr>imageUrl := Some url, isGenerating := False\<rparr> else p)
       (panels st)"
    by (simp add: generateImageForPanel_def setPanel_def Let_def comp_def if_distrib
        cong: if_cong)
  with firstImage_not_empty [OF assms(2)] show ?thesis by simp
qed

lemma generateImageForPanel_painted:
  assumes "alwaysPaints generateContent"
  shows "\<exists>url. url \<noteq> [] \<and> panels (generateImageForPanel generateContent i d st) =
     map (\<lambda>p. if panel_id p = i then p\<lparr>imageUrl := Some url, isGenerating := False\<rparr> else p)
       (panels st)"
proof -
  from assms obtain response s' url where
    "generateContent (Request IMAGE_MODEL [Part (Some d) None] (Some ''1:1''))
      (service (env st)) = (Inr response, s')"
    and "firstImage (responseParts response) = Some url"
    unfolding alwaysPaints_def by blast
  from generateImageForPanel_success [where generateContent = generateContent and st = st
      and d = d and i = i, OF this]
  show ?thesis by blast
qed

lemma batch_painted:
  assumes "alwaysPaints generateContent"
  shows "length (panels (generateImagesSequentially generateContent ps st)) = length (panels st) \<and>
    (\<forall>k < length (panels st).
       panel_id (panels (generateImagesSequentially generateContent ps st) ! k) =
         panel_id (panels st ! k) \<and>
       (\<not> needsImage (panels st ! k) \<or>
        panel_id (panels st ! k) \<in> panel_id ` {p \<in> set ps. needsImage p} \<longrightarrow>
        \<not> needsImage (panels (generateImagesSequentially generateContent ps st) ! k)))"
proof (induction ps arbitrary: st)
  case Nil
  then show ?case by simp
next
  case (Cons p ps)
  show ?case
  proof (cases "needsImage p")
    case False
    with Cons.IH [of st] show ?thesis by (auto simp: needsImage_def)
  next
    case True
    let ?st1 = "generateImageForPanel generateContent (panel_id p) (description p) st"
    let ?st2 = "?st1\<lparr>env := emit (Paused 4000) (env ?st1)\<rparr>"
    from generateImageForPanel_painted [OF assms, of "panel_id p" "description p" st]
    obtain url where url: "url \<noteq> []" and ps1: "panels ?st1 =
       map (\<lambda>q. if panel_id q = panel_id p
                 then q\<lparr>imageUrl := Some url, isGenerating := False\<rparr> else q) (panels st)"
      by blast
    have step: "generateImagesSequentially generateContent (p # ps) st =
        generateImagesSequentially generateContent ps ?st2"
      using True by (simp add: needsImage_def Let_def)
    have len1: "length (panels ?st2) = length (panels st)" using ps1 by simp
    have id1: "panel_id (panels ?st2 ! k) = panel_id (panels st ! k)"
      if "k < length (panels st)" for k
      using that ps1 by simp
    have done1: "\<not> needsImage (panels ?st2 ! k)"
      if "k < length (panels st)"
        and "\<not> needsImage (panels st ! k) \<or> panel_id (panels st ! k) = panel_id p" for k
      using that ps1 url by (auto simp: needsImage_def holdsImage_def)
    from Cons.IH [of ?st2] len1
    have len: "length (panels (generateImagesSequentially generateContent ps ?st2)) =
        length (panels st)"
      and rest: "\<forall>k < length (panels st).
       panel_id (panels (generateImagesSequentially generateContent ps ?st2) ! k) =
         panel_id (panels ?st2 ! k) \<and>
       (\<not> needsImage (panels ?st2 ! k) \<or>
        panel_id (panels ?st2 ! k) \<in> panel_id ` {p \<in> set ps. needsImage p} \<longrightarrow>
        \<not> needsImage (panels (generateImagesSequentially generateContent ps ?st2) ! k))"
      by simp_all
    show ?thesis
      unfolding step
    proof (intro conjI allI impI)
      show "length (panels (generateImagesSequentially generateContent ps ?st2)) =
          length (panels st)"
        by (rule len)
    next
      fix k assume k: "k < length (panels st)"
      with rest id1 show "panel_id (panels (generateImagesSequentially generateContent ps ?st2) ! k) =
          panel_id (panels st ! k)"
        by simp
    next
      fix k assume k: "k < length (panels st)"
        and c: "\<not> needsImage (panels st ! k) \<or>
          panel_id (panels st ! k) \<in> panel_id ` {q \<in> set (p # ps). needsImage q}"
      have "\<not> needsImage (panels ?st2 ! k) \<or>
          panel_id (panels ?st2 ! k) \<in> panel_id ` {q \<in> set ps. needsImage q}"
      proof (cases "\<not> needsImage (panels st ! k) \<or> panel_id (panels st ! k) = panel_id p")
        case True
        with done1 [OF k] show ?thesis by blast
      next
        case False
        with c have "panel_id (panels st ! k) \<in> panel_id ` {q \<in> set ps. needsImage q}"
          by auto
        with id1 [OF k] show ?thesis by simp
      qed
      with rest k show "\<not> needsImage (panels (generateImagesSequentially generateContent ps ?st2) ! k)"
        by blast
    qed
  qed
qed

lemma generateCover_panels:
  "panels (generateCover numberText generateContent story st) = panels st"
  by (simp add: generateCover_def Let_def split: prod.splits sum.splits)

text \<open>
  When the service answers every request with an image, a run of \<^verbatim>\<open>initStory\<close> leaves
  every panel of the component with an image or marked mid-generation.
\<close>

lemma initStory_painted:
  assumes "alwaysPaints generateContent"
    and "generateScript JSON_parse numberText story reply = Inr script"
  shows "length (panels (initStory JSON_parse numberText generateContent story reply st)) =
      length script \<and>
    (\<forall>p \<in> set (panels (initStory JSON_parse numberText generateContent story reply st)).
       \<not> needsImage p)"
proof -
  let ?st1 = "generateCover numberText generateContent story
      (st\<lparr>loadingScript := True, panels := script, loadingScript := False\<rparr>)"
  let ?st2 = "generateImagesSequentially generateContent script ?st1"
  have run: "initStory JSON_parse numberText generateContent story reply st = ?st2"
    using assms(2) by (simp add: initStory_def Let_def)
  have ps: "panels ?st1 = script" by (simp add: generateCover_panels)
  from generateScript_fresh [OF assms(2)] have fresh: "\<forall>p \<in> set script. needsImage p"
    by simp
  from batch_painted [OF assms(1), of script ?st1] ps
  have len: "length (panels ?st2) = length script"
    and each: "\<forall>k < length script.
       (\<not> needsImage (script ! k) \<or>
        panel_id (script ! k) \<in> panel_id ` {p \<in> set script. needsImage p} \<longrightarrow>
        \<not> needsImage (panels ?st2 ! k))"
    by simp_all
  have "\<not> needsImage q" if "q \<in> set (panels ?st2)" for q
  proof -
    from that len obtain k where k: "k < length script" and q: "q = panels ?st2 ! k"
      by (auto simp: in_set_conv_nth)
    from k fresh have "panel_id (script ! k) \<in> panel_id ` {p \<in> set script. needsImage p}"
      by auto
    with each k q show ?thesis by blast
  qed
  with len run show ?thesis by simp
qed

text \<open>
  A second run of \<^verbatim>\<open>initStory\<close> after such a run: although every panel of the
  component holds an image, the run issues an image-generation call for every panel of its
  new script.
\<close>

lemma initStory_again:
  assumes "alwaysPaints generateContent"
    and "generateScript JSON_parse numberText story reply = Inr script"
    and "generateScript JSON_parse numberText story reply' = Inr script'"
  shows "(\<forall>p \<in> set (panels (initStory JSON_parse numberText generateContent story reply st)).
       \<not> needsImage p) \<and>
    generateCalls (timeline (env
      (initStory JSON_parse numberText generateContent story reply'
        (initStory JSON_parse numberText generateContent story reply st)))) =
    generateCalls (timeline (env st)) @
      map (\<lambda>p. (panel_id p, description p)) script @
      map (\<lambda>p. (panel_id p, description p)) script'"
proof -
  let ?st1 = "initStory JSON_parse numberText generateContent story reply st"
  let ?st2 = "initStory JSON_parse numberText generateContent story reply' ?st1"
  from initStory_batch [OF assms(2), of generateContent st]
  have "generateCalls (batchEvents (timeline (env ?st1))) =
      generateCalls (batchEvents (timeline (env st)) @
        concat (map (\<lambda>p. [Generate (panel_id p) (description p), Paused 4000]) script))"
    by simp
  then have one: "generateCalls (timeline (env ?st1)) =
      generateCalls (timeline (env st)) @ map (\<lambda>p. (panel_id p, description p)) script"
    by (simp add: generateCalls_batchEvents generateCalls_append generateCalls_batch)
  from initStory_batch [OF assms(3), of generateContent ?st1]
  have "generateCalls (batchEvents (timeline (env ?st2))) =
      generateCalls (batchEvents (timeline (env ?st1)) @
        concat (map (\<lambda>p. [Generate (panel_id p) (description p), Paused 4000]) script'))"
    by simp
  then have "generateCalls (timeline (env ?st2)) =
      generateCalls (timeline (env ?st1)) @ map (\<lambda>p. (panel_id p, description p)) script'"
    by (simp add: generateCalls_batchEvents generateCalls_append generateCalls_batch)
  with one initStory_painted [OF assms(1,2), of st] show ?thesis by simp
qed







end
